theory Spec2Isabelle
  imports Main
begin

section \<open>JavaScript values\<close>

text \<open>
  The values the client handles are decoded JSON bodies and what property reads on them
  deliver. An object is the list of its own properties in enumeration order. Numbers are
  the integer-valued ones (printed in plain decimal by the runtime, which holds below
  \<open>10^21\<close>) together with \<open>NaN\<close> and the two infinities, which \<open>parseInt\<close>
  delivers; fractional numbers are not part of the model. A \<open>string\<close> is the list of
  the UTF-16 code units of a
  JavaScript string, for code units below 256. Members inherited from the built-in
  prototypes (\<open>toString\<close>, \<open>constructor\<close>, ...) are not modelled: a property read
  sees own properties, and the length and the elements of strings and arrays.
\<close>

datatype jsval =
    Undefined
  | Null
  | Bool bool
  | Num int
  | NaN
  | PosInfinity
  | NegInfinity
  | Str string
  | Arr "jsval list"
  | Obj "(string \<times> jsval) list"

text \<open>An error object: its message, and the two members axios sets on its errors.\<close>

record js_error =
  message :: string
  response :: "(int \<times> jsval) option"
  request :: bool

text \<open>\<open>new Error(msg)\<close> and the runtime's own \<open>TypeError\<close>s carry a message only.\<close>

definition Error :: "string \<Rightarrow> js_error" where
  "Error msg = \<lparr>message = msg, response = None, request = False\<rparr>"

text \<open>The message texts of the runtime's \<open>TypeError\<close>s are V8's.\<close>

definition TypeError_read :: "jsval \<Rightarrow> string \<Rightarrow> js_error" where
  "TypeError_read v k =
     Error (''Cannot read properties of '' @ (if v = Null then ''null'' else ''undefined'')
            @ '' (reading '' @ [CHR 0x27] @ k @ [CHR 0x27] @ '')'')"

definition TypeError_not_function :: "string \<Rightarrow> js_error" where
  "TypeError_not_function what = Error (what @ '' is not a function'')"

text \<open>Truthiness, as \<open>!x\<close>, \<open>x || y\<close> and \<open>x ? a : b\<close> test it.\<close>

fun truthy :: "jsval \<Rightarrow> bool" where
  "truthy Undefined = False"
| "truthy Null = False"
| "truthy (Bool b) = b"
| "truthy (Num n) = (n \<noteq> 0)"
| "truthy NaN = False"
| "truthy PosInfinity = True"
| "truthy NegInfinity = True"
| "truthy (Str s) = (s \<noteq> [])"
| "truthy (Arr xs) = True"
| "truthy (Obj kvs) = True"

text \<open>\<open>x || y\<close> and \<open>x ?? y\<close> on values already computed (neither operand raises).\<close>

definition js_or :: "jsval \<Rightarrow> jsval \<Rightarrow> jsval" where
  "js_or x y = (if truthy x then x else y)"

definition nullish :: "jsval \<Rightarrow> bool" where
  "nullish v = (v = Undefined \<or> v = Null)"

definition js_coalesce :: "jsval \<Rightarrow> jsval \<Rightarrow> jsval" where
  "js_coalesce x y = (if nullish x then y else x)"

text \<open>Decimal digits of a natural number and of an integer.\<close>

definition digit_char :: "nat \<Rightarrow> char" where
  "digit_char d = char_of (of_char (CHR ''0'') + d)"

fun dec_nat :: "nat \<Rightarrow> string" where
  "dec_nat n = (if n < 10 then [digit_char n] else dec_nat (n div 10) @ [digit_char (n mod 10)])"

declare dec_nat.simps [simp del]

definition dec_int :: "int \<Rightarrow> string" where
  "dec_int i = (if i < 0 then ''-'' @ dec_nat (nat (- i)) else dec_nat (nat i))"

text \<open>
  An array index written as a property key: the canonical decimal form of a position
  below the length.
\<close>

definition index_of_key :: "string \<Rightarrow> nat \<Rightarrow> nat option" where
  "index_of_key k n = List.find (\<lambda>i. dec_nat i = k) [0..<n]"

text \<open>
  \<open>v[k]\<close> (and \<open>v.k\<close>): reading a property of \<open>undefined\<close> or \<open>null\<close> raises a
  \<open>TypeError\<close>; a key an object does not have reads as \<open>undefined\<close>.
\<close>

fun get_prop :: "jsval \<Rightarrow> string \<Rightarrow> js_error + jsval" where
  "get_prop Undefined k = Inl (TypeError_read Undefined k)"
| "get_prop Null k = Inl (TypeError_read Null k)"
| "get_prop (Obj kvs) k = Inr (case map_of kvs k of None \<Rightarrow> Undefined | Some v \<Rightarrow> v)"
| "get_prop (Arr xs) k =
     Inr (if k = ''length'' then Num (int (length xs))
          else case index_of_key k (length xs) of None \<Rightarrow> Undefined | Some i \<Rightarrow> xs ! i)"
| "get_prop (Str s) k =
     Inr (if k = ''length'' then Num (int (length s))
          else case index_of_key k (length s) of None \<Rightarrow> Undefined | Some i \<Rightarrow> Str [s ! i])"
| "get_prop v k = Inr Undefined"

text \<open>\<open>v?.k\<close>: \<open>undefined\<close> on \<open>undefined\<close> and \<open>null\<close>, the property otherwise.\<close>

definition get_prop_opt :: "jsval \<Rightarrow> string \<Rightarrow> jsval" where
  "get_prop_opt v k = (case get_prop v k of Inl e \<Rightarrow> Undefined | Inr x \<Rightarrow> x)"

definition is_array :: "jsval \<Rightarrow> bool" where
  "is_array v = (case v of Arr xs \<Rightarrow> True | _ \<Rightarrow> False)"

text \<open>\<open>xs.join(sep)\<close> on strings.\<close>

fun join :: "string \<Rightarrow> string list \<Rightarrow> string" where
  "join sep [] = []"
| "join sep [x] = x"
| "join sep (x # y # ys) = x @ sep @ join sep (y # ys)"

text \<open>
  \<open>String(v)\<close>, which a template literal applies as well. An array prints its elements
  joined by commas, \<open>undefined\<close> and \<open>null\<close> elements as nothing.
\<close>

fun ToString :: "jsval \<Rightarrow> string"
  and ToString_elems :: "jsval list \<Rightarrow> string list" where
  "ToString Undefined = ''undefined''"
| "ToString Null = ''null''"
| "ToString (Bool b) = (if b then ''true'' else ''false'')"
| "ToString (Num n) = dec_int n"
| "ToString NaN = ''NaN''"
| "ToString PosInfinity = ''Infinity''"
| "ToString NegInfinity = ''-Infinity''"
| "ToString (Str s) = s"
| "ToString (Arr xs) = join '','' (ToString_elems xs)"
| "ToString (Obj kvs) = ''[object Object]''"
| "ToString_elems [] = []"
| "ToString_elems (x # xs) = (if nullish x then [] else ToString x) # ToString_elems xs"

text \<open>\<open>s.padEnd(n)\<close>, \<open>s.substring(0, n)\<close> and \<open>s.repeat(n)\<close>.\<close>

definition padEnd :: "string \<Rightarrow> nat \<Rightarrow> string" where
  "padEnd s n = s @ replicate (n - length s) (CHR '' '')"

definition substring0 :: "string \<Rightarrow> nat \<Rightarrow> string" where
  "substring0 s n = take n s"

definition repeat :: "string \<Rightarrow> nat \<Rightarrow> string" where
  "repeat s n = concat (replicate n s)"

subsection \<open>\<open>JSON.stringify\<close>\<close>

definition hex_digit :: "nat \<Rightarrow> char" where
  "hex_digit d = ''0123456789abcdef'' ! d"

definition json_escape :: "char \<Rightarrow> string" where
  "json_escape c =
     (if c = CHR 0x22 then [CHR 0x5C, CHR 0x22]
      else if c = CHR 0x5C then [CHR 0x5C, CHR 0x5C]
      else if c = CHR 0x08 then [CHR 0x5C, CHR ''b'']
      else if c = CHR 0x0C then [CHR 0x5C, CHR ''f'']
      else if c = CHR 0x0A then [CHR 0x5C, CHR ''n'']
      else if c = CHR 0x0D then [CHR 0x5C, CHR ''r'']
      else if c = CHR 0x09 then [CHR 0x5C, CHR ''t'']
      else if (of_char c :: nat) < 32
        then [CHR 0x5C, CHR ''u'', CHR ''0'', CHR ''0'',
              hex_digit (of_char c div 16), hex_digit (of_char c mod 16)]
      else [c])"

definition json_quote :: "string \<Rightarrow> string" where
  "json_quote s = [CHR 0x22] @ concat (map json_escape s) @ [CHR 0x22]"

text \<open>
  The serialisation of a value under the current indentation \<open>ind\<close>, with \<open>gap\<close> the
  indentation unit (empty for the compact form). A value that is \<open>undefined\<close> has no
  serialisation: as an array element it is written \<open>null\<close>, as a property it is left out.
\<close>

fun serialize :: "string \<Rightarrow> string \<Rightarrow> jsval \<Rightarrow> string option"
  and serialize_elems :: "string \<Rightarrow> string \<Rightarrow> jsval list \<Rightarrow> string list"
  and serialize_members :: "string \<Rightarrow> string \<Rightarrow> (string \<times> jsval) list \<Rightarrow> string list" where
  "serialize gap ind Undefined = None"
| "serialize gap ind Null = Some ''null''"
| "serialize gap ind (Bool b) = Some (if b then ''true'' else ''false'')"
| "serialize gap ind (Num n) = Some (dec_int n)"
| "serialize gap ind NaN = Some ''null''"
| "serialize gap ind PosInfinity = Some ''null''"
| "serialize gap ind NegInfinity = Some ''null''"
| "serialize gap ind (Str s) = Some (json_quote s)"
| "serialize gap ind (Arr xs) =
     Some (if xs = [] then ''[]''
           else if gap = [] then ''['' @ join '','' (serialize_elems gap (ind @ gap) xs) @ '']''
           else ''['' @ [CHR 0x0A] @ (ind @ gap)
                @ join ('','' @ [CHR 0x0A] @ (ind @ gap)) (serialize_elems gap (ind @ gap) xs)
                @ [CHR 0x0A] @ ind @ '']'')"
| "serialize gap ind (Obj kvs) =
     Some (if serialize_members gap (ind @ gap) kvs = [] then ''{}''
           else if gap = [] then ''{'' @ join '','' (serialize_members gap (ind @ gap) kvs) @ ''}''
           else ''{'' @ [CHR 0x0A] @ (ind @ gap)
                @ join ('','' @ [CHR 0x0A] @ (ind @ gap)) (serialize_members gap (ind @ gap) kvs)
                @ [CHR 0x0A] @ ind @ ''}'')"
| "serialize_elems gap ind [] = []"
| "serialize_elems gap ind (x # xs) =
     (case serialize gap ind x of None \<Rightarrow> ''null'' | Some s \<Rightarrow> s) # serialize_elems gap ind xs"
| "serialize_members gap ind [] = []"
| "serialize_members gap ind (kv # kvs) =
     (case serialize gap ind (snd kv) of
        None \<Rightarrow> serialize_members gap ind kvs
      | Some s \<Rightarrow>
          (json_quote (fst kv) @ '':'' @ (if gap = [] then [] else '' '') @ s)
            # serialize_members gap ind kvs)"

text \<open>
  \<open>JSON.stringify(v)\<close> and \<open>JSON.stringify(v, null, n)\<close>: a string, or \<open>undefined\<close>
  for \<open>undefined\<close>. The indentation unit is \<open>n\<close> spaces, at most ten.
\<close>

definition JSON_stringify :: "jsval \<Rightarrow> jsval" where
  "JSON_stringify v = (case serialize [] [] v of None \<Rightarrow> Undefined | Some s \<Rightarrow> Str s)"

definition JSON_stringify_indent :: "nat \<Rightarrow> jsval \<Rightarrow> jsval" where
  "JSON_stringify_indent n v =
     (case serialize (replicate (min n 10) (CHR '' '')) [] v of
        None \<Rightarrow> Undefined | Some s \<Rightarrow> Str s)"

subsection \<open>\<open>parseInt\<close> and \<open>toFixed\<close>\<close>

definition is_space :: "char \<Rightarrow> bool" where
  "is_space c = (c \<in> set [CHR 0x09, CHR 0x0A, CHR 0x0B, CHR 0x0C, CHR 0x0D, CHR 0x20, CHR 0xA0])"

definition digit_val :: "char \<Rightarrow> nat option" where
  "digit_val c =
     (let n = (of_char c :: nat) in
      if 48 \<le> n \<and> n \<le> 57 then Some (n - 48)
      else if 97 \<le> n \<and> n \<le> 122 then Some (n - 87)
      else if 65 \<le> n \<and> n \<le> 90 then Some (n - 55)
      else None)"

definition is_digit :: "nat \<Rightarrow> char \<Rightarrow> bool" where
  "is_digit radix c = (case digit_val c of None \<Rightarrow> False | Some d \<Rightarrow> d < radix)"

definition digits_value :: "nat \<Rightarrow> string \<Rightarrow> nat" where
  "digits_value radix ds =
     foldl (\<lambda>a c. case digit_val c of None \<Rightarrow> a | Some d \<Rightarrow> a * radix + d) 0 ds"

text \<open>
  The Number value of a natural number: a JavaScript number is an IEEE double, so a
  natural number from \<open>2^53\<close> on is rounded to 53 significant bits, to the nearest
  and on a tie to the even one; what rounds to \<open>2^1024\<close> or more is an infinity.
\<close>

fun bit_length :: "nat \<Rightarrow> nat" where
  "bit_length n = (if n = 0 then 0 else Suc (bit_length (n div 2)))"

declare bit_length.simps [simp del]

definition round_to_double :: "nat \<Rightarrow> nat" where
  "round_to_double n =
     (if n < 2 ^ 53 then n
      else let e = bit_length n - 53;
               q = n div 2 ^ e;
               r = n mod 2 ^ e;
               half = 2 ^ (e - 1);
               m = (if r > half \<or> (r = half \<and> odd q) then q + 1 else q)
           in m * 2 ^ e)"

text \<open>The integers that are JavaScript numbers: those a double holds exactly.\<close>

definition is_double :: "int \<Rightarrow> bool" where
  "is_double i = (round_to_double (nat \<bar>i\<bar>) = nat \<bar>i\<bar> \<and> nat \<bar>i\<bar> < 2 ^ 1024)"

definition number_value :: "bool \<Rightarrow> nat \<Rightarrow> jsval" where
  "number_value neg v =
     (let d = round_to_double v in
      if d \<ge> 2 ^ 1024 then (if neg then NegInfinity else PosInfinity)
      else Num ((if neg then - 1 else 1) * int d))"

text \<open>
  \<open>parseInt(s)\<close> with no radix: leading white space is skipped, a sign is read, a
  \<open>0x\<close> or \<open>0X\<close> prefix selects base 16, and the longest run of digits is the value,
  as a Number; \<open>NaN\<close> when there is no digit.
\<close>

definition parseInt :: "string \<Rightarrow> jsval" where
  "parseInt s =
     (let s1 = dropWhile is_space s;
          neg = (case s1 of [] \<Rightarrow> False | c # r \<Rightarrow> c = CHR ''-'');
          s2 = (case s1 of [] \<Rightarrow> [] | c # r \<Rightarrow> if c = CHR ''-'' \<or> c = CHR ''+'' then r else s1);
          hex = (case s2 of a # b # r \<Rightarrow> a = CHR ''0'' \<and> (b = CHR ''x'' \<or> b = CHR ''X'') | _ \<Rightarrow> False);
          radix = (if hex then 16 else 10);
          s3 = (if hex then drop 2 s2 else s2);
          ds = takeWhile (is_digit radix) s3
      in if ds = [] then NaN
         else number_value neg (digits_value radix ds))"

text \<open>
  \<open>v.toFixed(2)\<close>, with \<open>expr\<close> the source text of \<open>v\<close> for the runtime's message:
  only a number has the method. The digits are those the runtime prints below \<open>10^21\<close>.
\<close>

fun toFixed2 :: "string \<Rightarrow> jsval \<Rightarrow> js_error + string" where
  "toFixed2 expr (Num n) = Inr (dec_int n @ ''.00'')"
| "toFixed2 expr NaN = Inr ''NaN''"
| "toFixed2 expr PosInfinity = Inr ''Infinity''"
| "toFixed2 expr NegInfinity = Inr ''-Infinity''"
| "toFixed2 expr Undefined = Inl (TypeError_read Undefined ''toFixed'')"
| "toFixed2 expr Null = Inl (TypeError_read Null ''toFixed'')"
| "toFixed2 expr v = Inl (TypeError_not_function (expr @ ''.toFixed''))"

section \<open>Config store (\<open>src/config.js\<close>)\<close>

record config =
  apiKey :: string
  clientId :: string
  clientSecret :: string
  accessToken :: string
  tokenExpiry :: int
  baseUrl :: string

definition default_config :: config where
  "default_config =
     \<lparr>apiKey = [], clientId = [], clientSecret = [], accessToken = [],
      tokenExpiry = 0, baseUrl = ''https://platform.climate.com''\<rparr>"

definition isConfigured :: "config \<Rightarrow> bool" where
  "isConfigured cfg = (\<not> \<not> truthy (Str (apiKey cfg)))"

text \<open>\<open>now\<close> is \<open>Date.now()\<close>, in milliseconds.\<close>

definition hasValidToken :: "config \<Rightarrow> int \<Rightarrow> bool" where
  "hasValidToken cfg now =
     (if \<not> truthy (Str (accessToken cfg)) then False
      else tokenExpiry cfg > now + 60000)"

section \<open>API client (\<open>src/api.js\<close>)\<close>

text \<open>
  The module that \<open>src/index.js\<close> imports as \<open>./api.js\<close>; its text stands at the end
  of \<open>README.md\<close>.
\<close>

definition BASE_URL :: string where
  "BASE_URL = ''https://platform.climate.com''"

record client =
  baseURL :: string
  headers :: "(string \<times> string) list"

definition getClient :: "config \<Rightarrow> client" where
  "getClient cfg =
     \<lparr>baseURL = BASE_URL,
      headers = [(''Authorization'', ''Bearer '' @ apiKey cfg),
                 (''Accept'', ''application/json''),
                 (''Content-Type'', ''application/json'')]\<rparr>"

text \<open>
  \<open>handleApiError\<close> never returns: the value is the error it throws.
\<close>

definition api_error_detail :: "jsval \<Rightarrow> jsval" where
  "api_error_detail data =
     js_or (get_prop_opt data ''message'') (js_or (get_prop_opt data ''error'') (JSON_stringify data))"

definition handleApiError :: "js_error \<Rightarrow> js_error" where
  "handleApiError error =
     (case response error of
        Some (status, data) \<Rightarrow>
          if status = 401 then Error ''Authentication failed. Check your API key.''
          else if status = 403 then Error ''Access forbidden. Check your API permissions.''
          else if status = 404 then Error ''Resource not found.''
          else if status = 429 then Error ''Rate limit exceeded. Please wait before retrying.''
          else Error (''API Error ('' @ ToString (Num status) @ ''): ''
                      @ ToString (api_error_detail data))
      | None \<Rightarrow>
          if request error
          then Error ''No response from Climate FieldView API. Check your internet connection.''
          else error)"

text \<open>
  A request as handed to axios, and what axios makes of it: the promise resolves with a
  response, of which the code reads the decoded body, or rejects with an error.
\<close>

datatype http_request =
    GET string "(string \<times> jsval) list"
  | POST string jsval

datatype outcome = Resolved jsval | Rejected js_error

type_synonym network = "client \<Rightarrow> http_request \<Rightarrow> outcome"

text \<open>What a run does, in order.\<close>

datatype event =
    SpinnerStart string
  | SpinnerStop
  | Http client http_request
  | ConsoleLog "jsval list"
  | ConsoleError "jsval list"
  | Exit int

text \<open>
  The body shared by the exported operations: build the client, send the one request,
  return the decoded body or throw what \<open>handleApiError\<close> throws.
\<close>

definition send :: "config \<Rightarrow> network \<Rightarrow> http_request \<Rightarrow> event list \<times> (js_error + jsval)" where
  "send cfg net req =
     (let client = getClient cfg in
      ([Http client req],
       case net client req of
         Resolved data \<Rightarrow> Inr data
       | Rejected error \<Rightarrow> Inl (handleApiError error)))"

text \<open>The parameter default \<open>{ limit = 50 }\<close>: it applies when the value is \<open>undefined\<close>.\<close>

definition limit_or_default :: "jsval \<Rightarrow> jsval" where
  "limit_or_default limit = (if limit = Undefined then Num 50 else limit)"

definition listFields :: "config \<Rightarrow> network \<Rightarrow> jsval \<Rightarrow> event list \<times> (js_error + jsval)" where
  "listFields cfg net limit = send cfg net (GET ''/v4/fields'' [(''limit'', limit_or_default limit)])"

definition getField :: "config \<Rightarrow> network \<Rightarrow> jsval \<Rightarrow> event list \<times> (js_error + jsval)" where
  "getField cfg net fieldId = send cfg net (GET (''/v4/fields/'' @ ToString fieldId) [])"

definition createField ::
  "config \<Rightarrow> network \<Rightarrow> jsval \<Rightarrow> jsval \<Rightarrow> jsval \<Rightarrow> event list \<times> (js_error + jsval)" where
  "createField cfg net name acres boundary =
     send cfg net
       (POST ''/v4/fields''
          (Obj ([(''name'', name)]
                @ (if truthy acres then [(''acres'', acres)] else [])
                @ (if truthy boundary then [(''boundary'', boundary)] else []))))"

definition listFarms :: "config \<Rightarrow> network \<Rightarrow> jsval \<Rightarrow> event list \<times> (js_error + jsval)" where
  "listFarms cfg net limit = send cfg net (GET ''/v4/farms'' [(''limit'', limit_or_default limit)])"

definition getFarm :: "config \<Rightarrow> network \<Rightarrow> jsval \<Rightarrow> event list \<times> (js_error + jsval)" where
  "getFarm cfg net farmId = send cfg net (GET (''/v4/farms/'' @ ToString farmId) [])"

definition listBoundaries :: "config \<Rightarrow> network \<Rightarrow> jsval \<Rightarrow> event list \<times> (js_error + jsval)" where
  "listBoundaries cfg net limit =
     send cfg net (GET ''/v4/boundaries'' [(''limit'', limit_or_default limit)])"

definition getBoundary :: "config \<Rightarrow> network \<Rightarrow> jsval \<Rightarrow> event list \<times> (js_error + jsval)" where
  "getBoundary cfg net boundaryId = send cfg net (GET (''/v4/boundaries/'' @ ToString boundaryId) [])"

definition listHarvestActivities ::
  "config \<Rightarrow> network \<Rightarrow> jsval \<Rightarrow> event list \<times> (js_error + jsval)" where
  "listHarvestActivities cfg net limit =
     send cfg net (GET ''/v4/activitySummaries/harvest'' [(''limit'', limit_or_default limit)])"

definition getHarvestActivity ::
  "config \<Rightarrow> network \<Rightarrow> jsval \<Rightarrow> event list \<times> (js_error + jsval)" where
  "getHarvestActivity cfg net activityId =
     send cfg net (GET (''/v4/activitySummaries/harvest/'' @ ToString activityId) [])"

definition listPlantingActivities ::
  "config \<Rightarrow> network \<Rightarrow> jsval \<Rightarrow> event list \<times> (js_error + jsval)" where
  "listPlantingActivities cfg net limit =
     send cfg net (GET ''/v4/activitySummaries/planting'' [(''limit'', limit_or_default limit)])"

definition getPlantingActivity ::
  "config \<Rightarrow> network \<Rightarrow> jsval \<Rightarrow> event list \<times> (js_error + jsval)" where
  "getPlantingActivity cfg net activityId =
     send cfg net (GET (''/v4/activitySummaries/planting/'' @ ToString activityId) [])"

section \<open>Renderer (\<open>src/index.js\<close>)\<close>

text \<open>
  What the runtime and the libraries supply: how chalk styles a text (unchanged when
  colours are off, wrapped in escape codes otherwise), \<open>parseFloat\<close>, and the
  locale's rendering of \<open>new Date(v)\<close>.
\<close>

datatype style = Green | Red | Yellow | Cyan | Bold | Dim

record env =
  chalk :: "style \<Rightarrow> string \<Rightarrow> string"
  parseFloat :: "string \<Rightarrow> jsval"
  toLocaleDateString :: "jsval \<Rightarrow> string"
  toLocaleString :: "jsval \<Rightarrow> string"

text \<open>
  The three glyphs of the source that lie beyond code unit 255 stand as their UTF-8 bytes;
  the source never takes the length of a text that holds one.
\<close>

definition CHECK_MARK :: string where
  "CHECK_MARK = [CHR 0xE2, CHR 0x9C, CHR 0x93]"

definition BALLOT_X :: string where
  "BALLOT_X = [CHR 0xE2, CHR 0x9C, CHR 0x97]"

definition BOX_HORIZONTAL :: string where
  "BOX_HORIZONTAL = [CHR 0xE2, CHR 0x94, CHR 0x80]"

definition printSuccess :: "env \<Rightarrow> string \<Rightarrow> event" where
  "printSuccess env msg = ConsoleLog [Str (chalk env Green CHECK_MARK @ '' '' @ msg)]"

definition printError :: "env \<Rightarrow> string \<Rightarrow> event" where
  "printError env msg = ConsoleError [Str (chalk env Red BALLOT_X @ '' '' @ msg)]"

record column =
  key :: string
  label :: string
  format :: "(jsval \<Rightarrow> jsval \<Rightarrow> js_error + jsval) option"

text \<open>
  The text of one cell:
  \<open>String(col.format ? col.format(row[col.key], row) : (row[col.key] ?? ''))\<close>.
\<close>

definition cell_text :: "column \<Rightarrow> jsval \<Rightarrow> js_error + string" where
  "cell_text col row =
     (case format col of
        Some f \<Rightarrow>
          (case get_prop row (key col) of
             Inl e \<Rightarrow> Inl e
           | Inr v \<Rightarrow> (case f v row of Inl e \<Rightarrow> Inl e | Inr r \<Rightarrow> Inr (ToString r)))
      | None \<Rightarrow>
          (case get_prop row (key col) of
             Inl e \<Rightarrow> Inl e
           | Inr v \<Rightarrow> Inr (ToString (js_coalesce v (Str [])))))"

text \<open>The inner loop over the rows: the width grows to the longest cell text.\<close>

fun widen :: "column \<Rightarrow> jsval list \<Rightarrow> nat \<Rightarrow> js_error + nat" where
  "widen col [] w = Inr w"
| "widen col (row # rows) w =
     (case cell_text col row of
        Inl e \<Rightarrow> Inl e
      | Inr val \<Rightarrow> widen col rows (if length val > w then length val else w))"

text \<open>The outer loop over the columns; \<open>widths\<close> is keyed by \<open>col.key\<close>.\<close>

fun compute_widths ::
  "column list \<Rightarrow> jsval list \<Rightarrow> (string \<rightharpoonup> nat) \<Rightarrow> js_error + (string \<rightharpoonup> nat)" where
  "compute_widths [] rows widths = Inr widths"
| "compute_widths (col # cols) rows widths =
     (case widen col rows (length (label col)) of
        Inl e \<Rightarrow> Inl e
      | Inr w \<Rightarrow> compute_widths cols rows (widths(key col \<mapsto> min w 40)))"

text \<open>
  \<open>s.padEnd(widths[k])\<close> and \<open>s.substring(0, widths[k])\<close>; a key that \<open>widths\<close> does
  not hold reads as \<open>undefined\<close>, which pads to nothing and cuts nothing.
\<close>

definition pad_to :: "(string \<rightharpoonup> nat) \<Rightarrow> string \<Rightarrow> string \<Rightarrow> string" where
  "pad_to widths k s = padEnd s (case widths k of None \<Rightarrow> 0 | Some w \<Rightarrow> w)"

definition cut_to :: "(string \<rightharpoonup> nat) \<Rightarrow> string \<Rightarrow> string \<Rightarrow> string" where
  "cut_to widths k s = (case widths k of None \<Rightarrow> s | Some w \<Rightarrow> substring0 s w)"

definition header_line :: "column list \<Rightarrow> (string \<rightharpoonup> nat) \<Rightarrow> string" where
  "header_line columns widths =
     join ''  '' (map (\<lambda>col. pad_to widths (key col) (label col)) columns)"

fun row_cells :: "column list \<Rightarrow> (string \<rightharpoonup> nat) \<Rightarrow> jsval \<Rightarrow> js_error + string list" where
  "row_cells [] widths row = Inr []"
| "row_cells (col # cols) widths row =
     (case cell_text col row of
        Inl e \<Rightarrow> Inl e
      | Inr val \<Rightarrow>
          (case row_cells cols widths row of
             Inl e \<Rightarrow> Inl e
           | Inr cells \<Rightarrow> Inr (pad_to widths (key col) (cut_to widths (key col) val) # cells)))"

fun print_rows ::
  "column list \<Rightarrow> (string \<rightharpoonup> nat) \<Rightarrow> jsval list \<Rightarrow> event list \<times> js_error option" where
  "print_rows columns widths [] = ([], None)"
| "print_rows columns widths (row # rows) =
     (case row_cells columns widths row of
        Inl e \<Rightarrow> ([], Some e)
      | Inr cells \<Rightarrow>
          (case print_rows columns widths rows of
             (evs, err) \<Rightarrow> (ConsoleLog [Str (join ''  '' cells)] # evs, err)))"

text \<open>
  \<open>printTable\<close>: what it prints, and the error it throws if it does. On a value that
  is no array and not falsy, \<open>data.forEach\<close> is not a function: the first column's loop
  raises, or, with no column at all, the loop over the rows after the two header lines.
\<close>

definition printTable :: "env \<Rightarrow> jsval \<Rightarrow> column list \<Rightarrow> event list \<times> js_error option" where
  "printTable env data columns =
     (if \<not> truthy data \<or> get_prop_opt data ''length'' = Num 0
      then ([ConsoleLog [Str (chalk env Yellow ''No results found.'')]], None)
      else case data of
        Arr rows \<Rightarrow>
          (case compute_widths columns rows Map.empty of
             Inl e \<Rightarrow> ([], Some e)
           | Inr widths \<Rightarrow>
               (let header = header_line columns widths in
                case print_rows columns widths rows of
                  (evs, Some e) \<Rightarrow>
                    ([ConsoleLog [Str (chalk env Bold (chalk env Cyan header))],
                      ConsoleLog [Str (chalk env Dim (repeat BOX_HORIZONTAL (length header)))]]
                     @ evs, Some e)
                | (evs, None) \<Rightarrow>
                    ([ConsoleLog [Str (chalk env Bold (chalk env Cyan header))],
                      ConsoleLog [Str (chalk env Dim (repeat BOX_HORIZONTAL (length header)))]]
                     @ evs
                     @ [ConsoleLog [Str (chalk env Dim
                          ([CHR 0x0A] @ ToString (Num (int (length rows))) @ '' result(s)''))]],
                     None)))
      | _ \<Rightarrow>
          (if columns = []
           then ([ConsoleLog [Str (chalk env Bold (chalk env Cyan []))],
                  ConsoleLog [Str (chalk env Dim [])]],
                 Some (TypeError_not_function ''data.forEach''))
           else ([], Some (TypeError_not_function ''data.forEach''))))"

definition printJson :: "jsval \<Rightarrow> event" where
  "printJson data = ConsoleLog [JSON_stringify_indent 2 data]"

text \<open>
  \<open>withSpinner\<close>: the spinner starts, the operation runs, the spinner stops, and the
  result or the error passes through.
\<close>

definition withSpinner ::
  "string \<Rightarrow> event list \<times> (js_error + jsval) \<Rightarrow> event list \<times> (js_error + jsval)" where
  "withSpinner msg run = (case run of (evs, result) \<Rightarrow> (SpinnerStart msg # evs @ [SpinnerStop], result))"

text \<open>
  \<open>requireAuth\<close>: \<open>Some\<close> of what it printed when it ended the process, \<open>None\<close> when
  it returned.
\<close>

definition requireAuth :: "env \<Rightarrow> config \<Rightarrow> event list option" where
  "requireAuth env cfg =
     (if \<not> isConfigured cfg
      then Some [printError env ''Climate FieldView credentials not configured.'',
                 ConsoleLog [Str ([CHR 0x0A] @ ''Run the following to configure:'')],
                 ConsoleLog [Str (chalk env Cyan ''  climatecom config set --api-key <key>'')],
                 Exit 1]
      else None)"

section \<open>Commands (\<open>src/index.js\<close>)\<close>

text \<open>The \<open>catch\<close> block of every action: print the message, exit with status 1.\<close>

definition fail :: "env \<Rightarrow> js_error \<Rightarrow> event list" where
  "fail env error = [printError env (message error), Exit 1]"

text \<open>
  The expression every \<open>list\<close> action applies to the body:
  \<open>data.results || data.data || (Array.isArray(data) ? data : [data])\<close>.
\<close>

definition extract_records :: "jsval \<Rightarrow> js_error + jsval" where
  "extract_records data =
     (case get_prop data ''results'' of
        Inl e \<Rightarrow> Inl e
      | Inr results \<Rightarrow>
          if truthy results then Inr results
          else (case get_prop data ''data'' of
                  Inl e \<Rightarrow> Inl e
                | Inr d \<Rightarrow>
                    if truthy d then Inr d
                    else Inr (if is_array data then data else Arr [data])))"

text \<open>The formatters the column specs of the actions declare.\<close>

definition format_id :: "jsval \<Rightarrow> jsval \<Rightarrow> js_error + jsval" where
  "format_id v row = Inr (if truthy v then Str (substring0 (ToString v) 16) else Str ''N/A'')"

definition format_text :: "jsval \<Rightarrow> jsval \<Rightarrow> js_error + jsval" where
  "format_text v row = Inr (js_or v (Str ''N/A''))"

definition format_fixed :: "jsval \<Rightarrow> jsval \<Rightarrow> js_error + jsval" where
  "format_fixed v row =
     (if v \<noteq> Undefined
      then (case toFixed2 ''v'' v of Inl e \<Rightarrow> Inl e | Inr s \<Rightarrow> Inr (Str s))
      else Inr (Str ''N/A''))"

definition format_count :: "jsval \<Rightarrow> jsval \<Rightarrow> js_error + jsval" where
  "format_count v row = Inr (if v \<noteq> Undefined then Str (ToString v) else Str ''N/A'')"

definition format_date :: "env \<Rightarrow> jsval \<Rightarrow> jsval \<Rightarrow> js_error + jsval" where
  "format_date env v row = Inr (if truthy v then Str (toLocaleDateString env v) else Str ''N/A'')"

definition fields_columns :: "column list" where
  "fields_columns =
     [\<lparr>key = ''id'', label = ''ID'', format = Some format_id\<rparr>,
      \<lparr>key = ''name'', label = ''Name'', format = Some format_text\<rparr>,
      \<lparr>key = ''acres'', label = ''Acres'', format = Some format_fixed\<rparr>,
      \<lparr>key = ''farmName'', label = ''Farm'', format = Some format_text\<rparr>]"

definition farms_columns :: "column list" where
  "farms_columns =
     [\<lparr>key = ''id'', label = ''ID'', format = Some format_id\<rparr>,
      \<lparr>key = ''name'', label = ''Name'', format = Some format_text\<rparr>,
      \<lparr>key = ''fieldCount'', label = ''Fields'', format = Some format_count\<rparr>]"

definition boundaries_columns :: "column list" where
  "boundaries_columns =
     [\<lparr>key = ''id'', label = ''ID'', format = Some format_id\<rparr>,
      \<lparr>key = ''fieldName'', label = ''Field'', format = Some format_text\<rparr>,
      \<lparr>key = ''acres'', label = ''Acres'', format = Some format_fixed\<rparr>]"

definition activity_columns :: "env \<Rightarrow> column list" where
  "activity_columns env =
     [\<lparr>key = ''id'', label = ''ID'', format = Some format_id\<rparr>,
      \<lparr>key = ''fieldName'', label = ''Field'', format = Some format_text\<rparr>,
      \<lparr>key = ''crop'', label = ''Crop'', format = Some format_text\<rparr>,
      \<lparr>key = ''startTime'', label = ''Start'', format = Some (format_date env)\<rparr>,
      \<lparr>key = ''area'', label = ''Area (ac)'', format = Some format_fixed\<rparr>]"

text \<open>
  The options of a \<open>list\<close> action as given on the command line; commander fills in the
  declared default \<open>'50'\<close> when \<open>--limit\<close> is absent.
\<close>

record list_options =
  limit_arg :: "string option"
  json_flag :: bool

definition option_limit :: "list_options \<Rightarrow> string" where
  "option_limit options = (case limit_arg options of None \<Rightarrow> ''50'' | Some s \<Rightarrow> s)"

text \<open>
  The five \<open>list\<close> actions have one body; they differ in the spinner's text, the
  operation called and the columns.
\<close>

definition list_action ::
  "env \<Rightarrow> config \<Rightarrow> network \<Rightarrow> string
    \<Rightarrow> (config \<Rightarrow> network \<Rightarrow> jsval \<Rightarrow> event list \<times> (js_error + jsval))
    \<Rightarrow> column list \<Rightarrow> list_options \<Rightarrow> event list" where
  "list_action env cfg net spinner_text operation columns options =
     (case requireAuth env cfg of
        Some evs \<Rightarrow> evs
      | None \<Rightarrow>
          (case withSpinner spinner_text (operation cfg net (parseInt (option_limit options))) of
             (evs, Inl error) \<Rightarrow> evs @ fail env error
           | (evs, Inr data) \<Rightarrow>
               if json_flag options then evs @ [printJson data]
               else (case extract_records data of
                       Inl error \<Rightarrow> evs @ fail env error
                     | Inr records \<Rightarrow>
                         (case printTable env records columns of
                            (out, None) \<Rightarrow> evs @ out
                          | (out, Some error) \<Rightarrow> evs @ out @ fail env error))))"

definition fields_list :: "env \<Rightarrow> config \<Rightarrow> network \<Rightarrow> list_options \<Rightarrow> event list" where
  "fields_list env cfg net options =
     list_action env cfg net ''Fetching fields...'' listFields fields_columns options"

definition farms_list :: "env \<Rightarrow> config \<Rightarrow> network \<Rightarrow> list_options \<Rightarrow> event list" where
  "farms_list env cfg net options =
     list_action env cfg net ''Fetching farms...'' listFarms farms_columns options"

definition boundaries_list :: "env \<Rightarrow> config \<Rightarrow> network \<Rightarrow> list_options \<Rightarrow> event list" where
  "boundaries_list env cfg net options =
     list_action env cfg net ''Fetching boundaries...'' listBoundaries boundaries_columns options"

definition harvest_list :: "env \<Rightarrow> config \<Rightarrow> network \<Rightarrow> list_options \<Rightarrow> event list" where
  "harvest_list env cfg net options =
     list_action env cfg net ''Fetching harvest activities...'' listHarvestActivities
       (activity_columns env) options"

definition planting_list :: "env \<Rightarrow> config \<Rightarrow> network \<Rightarrow> list_options \<Rightarrow> event list" where
  "planting_list env cfg net options =
     list_action env cfg net ''Fetching planting activities...'' listPlantingActivities
       (activity_columns env) options"

text \<open>
  The text mode of the other actions is a run of \<open>console.log\<close> calls, each of which
  may raise while its arguments are computed; what was printed before stays printed.
\<close>

fun run_steps :: "(js_error + event) list \<Rightarrow> event list \<times> js_error option" where
  "run_steps [] = ([], None)"
| "run_steps (Inl e # steps) = ([], Some e)"
| "run_steps (Inr ev # steps) = (case run_steps steps of (evs, err) \<Rightarrow> (ev # evs, err))"

text \<open>One \<open>console.log\<close> whose arguments are computed from the property \<open>k\<close> of \<open>obj\<close>.\<close>

definition log_prop ::
  "jsval \<Rightarrow> string \<Rightarrow> (jsval \<Rightarrow> js_error + jsval list) \<Rightarrow> js_error + event" where
  "log_prop obj k args =
     (case get_prop obj k of
        Inl e \<Rightarrow> Inl e
      | Inr v \<Rightarrow> (case args v of Inl e \<Rightarrow> Inl e | Inr as \<Rightarrow> Inr (ConsoleLog as)))"

text \<open>\<open>v !== undefined ? `${v.toFixed(2)} acres` : 'N/A'\<close>\<close>

definition acres_text :: "string \<Rightarrow> jsval \<Rightarrow> js_error + jsval" where
  "acres_text expr v =
     (if v \<noteq> Undefined
      then (case toFixed2 expr v of Inl e \<Rightarrow> Inl e | Inr s \<Rightarrow> Inr (Str (s @ '' acres'')))
      else Inr (Str ''N/A''))"

text \<open>The tail of an action in text mode: the steps, then the \<open>catch\<close> block if one raised.\<close>

definition finish :: "env \<Rightarrow> event list \<times> js_error option \<Rightarrow> event list" where
  "finish env run = (case run of (out, None) \<Rightarrow> out | (out, Some error) \<Rightarrow> out @ fail env error)"

text \<open>
  The five \<open>get\<close> actions have one frame: the check, the operation under the spinner,
  then the JSON mode or the text mode \<open>details\<close>.
\<close>

definition get_action ::
  "env \<Rightarrow> config \<Rightarrow> network \<Rightarrow> string
    \<Rightarrow> (config \<Rightarrow> network \<Rightarrow> jsval \<Rightarrow> event list \<times> (js_error + jsval))
    \<Rightarrow> (jsval \<Rightarrow> (js_error + event) list) \<Rightarrow> string \<Rightarrow> bool \<Rightarrow> event list" where
  "get_action env cfg net spinner_text operation details ident json =
     (case requireAuth env cfg of
        Some evs \<Rightarrow> evs
      | None \<Rightarrow>
          (case withSpinner spinner_text (operation cfg net (Str ident)) of
             (evs, Inl error) \<Rightarrow> evs @ fail env error
           | (evs, Inr data) \<Rightarrow>
               if json then evs @ [printJson data]
               else evs @ finish env (run_steps (details data))))"

definition field_details :: "env \<Rightarrow> string \<Rightarrow> jsval \<Rightarrow> (js_error + event) list" where
  "field_details env fieldId field =
     [Inr (ConsoleLog [Str (chalk env Bold ([CHR 0x0A] @ ''Field Details'' @ [CHR 0x0A]))]),
      log_prop field ''id''
        (\<lambda>v. Inr [Str ''ID:    '', Str (chalk env Cyan (ToString (js_or v (Str fieldId))))]),
      log_prop field ''name'' (\<lambda>v. Inr [Str ''Name:  '', js_or v (Str ''N/A'')]),
      log_prop field ''acres''
        (\<lambda>v. case acres_text ''field.acres'' v of
                Inl e \<Rightarrow> Inl e | Inr t \<Rightarrow> Inr [Str ''Acres: '', t]),
      log_prop field ''farmName'' (\<lambda>v. Inr [Str ''Farm:  '', js_or v (Str ''N/A'')]),
      Inr (ConsoleLog [Str []])]"

definition fields_get :: "env \<Rightarrow> config \<Rightarrow> network \<Rightarrow> string \<Rightarrow> bool \<Rightarrow> event list" where
  "fields_get env cfg net fieldId json =
     get_action env cfg net ''Fetching field...'' getField (field_details env fieldId) fieldId json"

definition farm_details :: "env \<Rightarrow> string \<Rightarrow> jsval \<Rightarrow> (js_error + event) list" where
  "farm_details env farmId farm =
     [Inr (ConsoleLog [Str (chalk env Bold ([CHR 0x0A] @ ''Farm Details'' @ [CHR 0x0A]))]),
      log_prop farm ''id''
        (\<lambda>v. Inr [Str ''ID:     '', Str (chalk env Cyan (ToString (js_or v (Str farmId))))]),
      log_prop farm ''name'' (\<lambda>v. Inr [Str ''Name:   '', js_or v (Str ''N/A'')]),
      log_prop farm ''fieldCount''
        (\<lambda>v. Inr [Str ''Fields: '', if v \<noteq> Undefined then Str (ToString v) else Str ''N/A'']),
      Inr (ConsoleLog [Str []])]"

definition farms_get :: "env \<Rightarrow> config \<Rightarrow> network \<Rightarrow> string \<Rightarrow> bool \<Rightarrow> event list" where
  "farms_get env cfg net farmId json =
     get_action env cfg net ''Fetching farm...'' getFarm (farm_details env farmId) farmId json"

definition boundary_details :: "env \<Rightarrow> string \<Rightarrow> jsval \<Rightarrow> (js_error + event) list" where
  "boundary_details env boundaryId boundary =
     [Inr (ConsoleLog [Str (chalk env Bold ([CHR 0x0A] @ ''Boundary Details'' @ [CHR 0x0A]))]),
      log_prop boundary ''id''
        (\<lambda>v. Inr [Str ''ID:    '', Str (chalk env Cyan (ToString (js_or v (Str boundaryId))))]),
      log_prop boundary ''fieldName'' (\<lambda>v. Inr [Str ''Field: '', js_or v (Str ''N/A'')]),
      log_prop boundary ''acres''
        (\<lambda>v. case acres_text ''boundary.acres'' v of
                Inl e \<Rightarrow> Inl e | Inr t \<Rightarrow> Inr [Str ''Acres: '', t]),
      Inr (ConsoleLog [Str []])]"

definition boundaries_get :: "env \<Rightarrow> config \<Rightarrow> network \<Rightarrow> string \<Rightarrow> bool \<Rightarrow> event list" where
  "boundaries_get env cfg net boundaryId json =
     get_action env cfg net ''Fetching boundary...'' getBoundary
       (boundary_details env boundaryId) boundaryId json"

text \<open>The harvest and the planting details differ in their title only.\<close>

definition activity_details :: "env \<Rightarrow> string \<Rightarrow> string \<Rightarrow> jsval \<Rightarrow> (js_error + event) list" where
  "activity_details env title activityId activity =
     [Inr (ConsoleLog [Str (chalk env Bold ([CHR 0x0A] @ title @ [CHR 0x0A]))]),
      log_prop activity ''id''
        (\<lambda>v. Inr [Str ''ID:    '', Str (chalk env Cyan (ToString (js_or v (Str activityId))))]),
      log_prop activity ''fieldName'' (\<lambda>v. Inr [Str ''Field: '', js_or v (Str ''N/A'')]),
      log_prop activity ''crop'' (\<lambda>v. Inr [Str ''Crop:  '', js_or v (Str ''N/A'')]),
      log_prop activity ''startTime''
        (\<lambda>v. Inr [Str ''Start: '', if truthy v then Str (toLocaleString env v) else Str ''N/A'']),
      log_prop activity ''area''
        (\<lambda>v. case acres_text ''activity.area'' v of
                Inl e \<Rightarrow> Inl e | Inr t \<Rightarrow> Inr [Str ''Area:  '', t]),
      Inr (ConsoleLog [Str []])]"

definition harvest_get :: "env \<Rightarrow> config \<Rightarrow> network \<Rightarrow> string \<Rightarrow> bool \<Rightarrow> event list" where
  "harvest_get env cfg net activityId json =
     get_action env cfg net ''Fetching harvest activity...'' getHarvestActivity
       (activity_details env ''Harvest Activity'' activityId) activityId json"

definition planting_get :: "env \<Rightarrow> config \<Rightarrow> network \<Rightarrow> string \<Rightarrow> bool \<Rightarrow> event list" where
  "planting_get env cfg net activityId json =
     get_action env cfg net ''Fetching planting activity...'' getPlantingActivity
       (activity_details env ''Planting Activity'' activityId) activityId json"

record create_options =
  name_arg :: string
  acres_arg :: "string option"
  create_json :: bool

text \<open>\<open>options.acres ? parseFloat(options.acres) : undefined\<close>\<close>

definition option_acres :: "env \<Rightarrow> create_options \<Rightarrow> jsval" where
  "option_acres env options =
     (case acres_arg options of
        None \<Rightarrow> Undefined
      | Some s \<Rightarrow> if truthy (Str s) then parseFloat env s else Undefined)"

definition fields_create :: "env \<Rightarrow> config \<Rightarrow> network \<Rightarrow> create_options \<Rightarrow> event list" where
  "fields_create env cfg net options =
     (case requireAuth env cfg of
        Some evs \<Rightarrow> evs
      | None \<Rightarrow>
          (case withSpinner ''Creating field...''
                  (createField cfg net (Str (name_arg options)) (option_acres env options) Undefined) of
             (evs, Inl error) \<Rightarrow> evs @ fail env error
           | (evs, Inr field) \<Rightarrow>
               if create_json options then evs @ [printJson field]
               else evs @ finish env (run_steps
                 [Inr (printSuccess env (''Field created: '' @ chalk env Bold (name_arg options))),
                  log_prop field ''id'' (\<lambda>v. Inr [Str ''Field ID: '', js_or v (Str ''N/A'')])])))"

text \<open>The authenticated subcommands, and what running one does.\<close>

datatype command =
    FieldsList list_options
  | FieldsGet string bool
  | FieldsCreate create_options
  | FarmsList list_options
  | FarmsGet string bool
  | BoundariesList list_options
  | BoundariesGet string bool
  | HarvestList list_options
  | HarvestGet string bool
  | PlantingList list_options
  | PlantingGet string bool

fun run :: "env \<Rightarrow> config \<Rightarrow> network \<Rightarrow> command \<Rightarrow> event list" where
  "run env cfg net (FieldsList options) = fields_list env cfg net options"
| "run env cfg net (FieldsGet ident json) = fields_get env cfg net ident json"
| "run env cfg net (FieldsCreate options) = fields_create env cfg net options"
| "run env cfg net (FarmsList options) = farms_list env cfg net options"
| "run env cfg net (FarmsGet ident json) = farms_get env cfg net ident json"
| "run env cfg net (BoundariesList options) = boundaries_list env cfg net options"
| "run env cfg net (BoundariesGet ident json) = boundaries_get env cfg net ident json"
| "run env cfg net (HarvestList options) = harvest_list env cfg net options"
| "run env cfg net (HarvestGet ident json) = harvest_get env cfg net ident json"
| "run env cfg net (PlantingList options) = planting_list env cfg net options"
| "run env cfg net (PlantingGet ident json) = planting_get env cfg net ident json"

text \<open>The requests of a run, in order, and the exit status a run ends with, if it exits.\<close>

fun requests_of :: "event list \<Rightarrow> (client \<times> http_request) list" where
  "requests_of [] = []"
| "requests_of (Http c r # evs) = (c, r) # requests_of evs"
| "requests_of (ev # evs) = requests_of evs"

fun exit_status :: "event list \<Rightarrow> int option" where
  "exit_status [] = None"
| "exit_status (Exit n # evs) = Some n"
| "exit_status (ev # evs) = exit_status evs"

section \<open>The renderer in closed form\<close>

text \<open>
  The documented rule for a column's width, \<open>min(40, max(label length, all
  formatted-value lengths))\<close>, and the table it leads to. \<open>text_of\<close> is the text of a
  cell that does not raise, and \<open>renders\<close> says that no cell of the table raises.
\<close>

definition text_of :: "column \<Rightarrow> jsval \<Rightarrow> string" where
  "text_of col row = (case cell_text col row of Inl e \<Rightarrow> [] | Inr t \<Rightarrow> t)"

definition renders :: "column list \<Rightarrow> jsval list \<Rightarrow> bool" where
  "renders columns rows =
     list_all (\<lambda>col. list_all (\<lambda>row. \<not> isl (cell_text col row)) rows) columns"

definition documented_width :: "column \<Rightarrow> jsval list \<Rightarrow> nat" where
  "documented_width col rows =
     min 40 (Max (set (length (label col) # map (\<lambda>row. length (text_of col row)) rows)))"

text \<open>The widths the code ends with: a later column overwrites an earlier one of the same key.\<close>

definition table_widths :: "column list \<Rightarrow> jsval list \<Rightarrow> (string \<rightharpoonup> nat)" where
  "table_widths columns rows =
     fold (\<lambda>col widths. widths(key col \<mapsto> documented_width col rows)) columns Map.empty"

definition row_line :: "column list \<Rightarrow> (string \<rightharpoonup> nat) \<Rightarrow> jsval \<Rightarrow> string" where
  "row_line columns widths row =
     join ''  '' (map (\<lambda>col. pad_to widths (key col) (cut_to widths (key col) (text_of col row))) columns)"

text \<open>An environment with colours off; the renderer uses no other member of it.\<close>

definition plain :: env where
  "plain = \<lparr>chalk = (\<lambda>style text. text), parseFloat = (\<lambda>s. NaN),
            toLocaleDateString = (\<lambda>v. ''1/1/2024''), toLocaleString = (\<lambda>v. ''1/1/2024, 12:00:00 AM'')\<rparr>"

text \<open>The one request each command sends once the configuration check has passed.\<close>

fun request_of :: "env \<Rightarrow> command \<Rightarrow> http_request" where
  "request_of env (FieldsList options) = GET ''/v4/fields'' [(''limit'', parseInt (option_limit options))]"
| "request_of env (FieldsGet ident json) = GET (''/v4/fields/'' @ ident) []"
| "request_of env (FieldsCreate options) =
     POST ''/v4/fields''
       (Obj ([(''name'', Str (name_arg options))]
             @ (if truthy (option_acres env options) then [(''acres'', option_acres env options)] else [])))"
| "request_of env (FarmsList options) = GET ''/v4/farms'' [(''limit'', parseInt (option_limit options))]"
| "request_of env (FarmsGet ident json) = GET (''/v4/farms/'' @ ident) []"
| "request_of env (BoundariesList options) =
     GET ''/v4/boundaries'' [(''limit'', parseInt (option_limit options))]"
| "request_of env (BoundariesGet ident json) = GET (''/v4/boundaries/'' @ ident) []"
| "request_of env (HarvestList options) =
     GET ''/v4/activitySummaries/harvest'' [(''limit'', parseInt (option_limit options))]"
| "request_of env (HarvestGet ident json) = GET (''/v4/activitySummaries/harvest/'' @ ident) []"
| "request_of env (PlantingList options) =
     GET ''/v4/activitySummaries/planting'' [(''limit'', parseInt (option_limit options))]"
| "request_of env (PlantingGet ident json) = GET (''/v4/activitySummaries/planting/'' @ ident) []"

section \<open>Decimal numerals and \<open>parseInt\<close>\<close>

lemma digit_char_eval:
  "digit_char 0 = CHR ''0''" "digit_char 1 = CHR ''1''" "digit_char 2 = CHR ''2''"
  "digit_char 3 = CHR ''3''" "digit_char 4 = CHR ''4''" "digit_char 5 = CHR ''5''"
  "digit_char 6 = CHR ''6''" "digit_char 7 = CHR ''7''" "digit_char 8 = CHR ''8''"
  "digit_char 9 = CHR ''9''" "digit_char (Suc 0) = CHR ''1''"
  by (simp_all add: digit_char_def char_of_def bit_Suc_0_iff)

lemma dec_nat_eval:
  "dec_nat 0 = ''0''" "dec_nat (Suc 0) = ''1''"
  "dec_nat (numeral k) =
     (if numeral k < (10::nat) then [digit_char (numeral k)]
      else dec_nat (numeral k div 10) @ [digit_char (numeral k mod 10)])"
  by (simp_all add: dec_nat.simps [of 0] dec_nat.simps [of "Suc 0"] dec_nat.simps [of "numeral k"] digit_char_eval)

lemma digit_cases:
  assumes "d < (10::nat)"
  shows "d = 0 \<or> d = 1 \<or> d = 2 \<or> d = 3 \<or> d = 4 \<or> d = 5 \<or> d = 6 \<or> d = 7 \<or> d = 8 \<or> d = 9"
  using assms by arith

lemma digit_char_props:
  assumes "d < 10"
  shows "digit_val (digit_char d) = Some d"
    and "\<not> is_space (digit_char d)"
    and "digit_char d \<in> set ''0123456789''"
  using digit_cases [OF assms]
  by (auto simp: digit_char_eval digit_val_def is_space_def)

lemma dec_nat_unfold:
  "n < 10 \<Longrightarrow> dec_nat n = [digit_char n]"
  "\<not> n < 10 \<Longrightarrow> dec_nat n = dec_nat (n div 10) @ [digit_char (n mod 10)]"
  by (subst dec_nat.simps, simp)+

lemma dec_nat_digits: "c \<in> set (dec_nat n) \<Longrightarrow> \<exists>d<10. c = digit_char d"
proof (induction n arbitrary: c rule: dec_nat.induct)
  case (1 n)
  show ?case
  proof (cases "n < 10")
    case True
    with "1.prems" have "c = digit_char n" by (simp add: dec_nat_unfold(1))
    with True show ?thesis by blast
  next
    case False
    with "1.prems" have "c \<in> set (dec_nat (n div 10)) \<or> c = digit_char (n mod 10)"
      by (simp add: dec_nat_unfold(2)) blast
    then show ?thesis
    proof
      assume "c \<in> set (dec_nat (n div 10))"
      then show ?thesis by (rule "1.IH" [OF False])
    next
      assume "c = digit_char (n mod 10)"
      moreover have "n mod 10 < 10" by simp
      ultimately show ?thesis by blast
    qed
  qed
qed

lemma dec_nat_nonempty: "dec_nat n \<noteq> []"
  by (cases "n < 10") (simp_all add: dec_nat_unfold)

lemma dec_nat_chars:
  assumes "c \<in> set (dec_nat n)"
  shows "is_digit 10 c" and "\<not> is_space c" and "c \<in> set ''0123456789''"
proof -
  obtain d where d: "d < 10" "c = digit_char d"
    using dec_nat_digits [OF assms] by blast
  show "is_digit 10 c" using d digit_char_props(1) [of d] by (simp add: is_digit_def)
  show "\<not> is_space c" using d digit_char_props(2) [of d] by simp
  show "c \<in> set ''0123456789''" using d digit_char_props(3) [of d] by simp
qed

lemma dec_nat_not_key:
  assumes "c \<in> set k" "c \<notin> set ''0123456789''"
  shows "dec_nat n \<noteq> k"
  using assms dec_nat_chars(3) by blast

lemma index_of_key_None:
  assumes "c \<in> set k" "c \<notin> set ''0123456789''"
  shows "index_of_key k n = None"
  using dec_nat_not_key [OF assms] by (simp add: index_of_key_def find_None_iff)

lemma index_of_key_envelope:
  "index_of_key ''results'' n = None" "index_of_key ''data'' n = None"
  by (rule index_of_key_None [of "CHR ''r''"], simp, simp)
     (rule index_of_key_None [of "CHR ''d''"], simp, simp)

lemma digits_value_snoc:
  "digits_value radix (ds @ [c]) =
     (case digit_val c of None \<Rightarrow> digits_value radix ds | Some d \<Rightarrow> digits_value radix ds * radix + d)"
  unfolding digits_value_def by simp

lemma digits_value_dec_nat: "digits_value 10 (dec_nat n) = n"
proof (induction n rule: dec_nat.induct)
  case (1 n)
  show ?case
  proof (cases "n < 10")
    case True
    then show ?thesis
      using digits_value_snoc [of 10 "[]" "digit_char n"]
      by (simp add: dec_nat_unfold(1) digit_char_props(1) digits_value_def)
  next
    case False
    have "digits_value 10 (dec_nat n) = digits_value 10 (dec_nat (n div 10)) * 10 + n mod 10"
      using False by (simp add: dec_nat_unfold(2) digits_value_snoc digit_char_props(1))
    then show ?thesis using "1.IH" [OF False] by simp
  qed
qed

lemma parseInt_digits:
  assumes "\<not> is_space c" "c \<noteq> CHR ''-''" "c \<noteq> CHR ''+''"
    and "\<not> (c = CHR ''0'' \<and> (\<exists>b t. r = b # t \<and> (b = CHR ''x'' \<or> b = CHR ''X'')))"
    and "\<forall>x\<in>set (c # r). is_digit 10 x"
  shows "parseInt (c # r) = number_value False (digits_value 10 (c # r))"
proof -
  have hex: "(case r of [] \<Rightarrow> False | b # t \<Rightarrow> c = CHR ''0'' \<and> (b = CHR ''x'' \<or> b = CHR ''X'')) = False"
    using assms(4) by (cases r) auto
  have tw: "takeWhile (is_digit 10) (c # r) = c # r"
    using assms(5) by (simp only: takeWhile_eq_all_conv)
  have dw: "dropWhile is_space (c # r) = c # r"
    using assms(1) by simp
  show ?thesis
    unfolding parseInt_def dw Let_def
    by (simp only: list.case assms(2,3) hex tw if_False simp_thms list.distinct)
qed

lemma round_to_double_small: "n < 2 ^ 53 \<Longrightarrow> round_to_double n = n"
  by (simp add: round_to_double_def)

lemma is_double_small: "\<bar>i\<bar> < 2 ^ 53 \<Longrightarrow> is_double i"
proof -
  assume a: "\<bar>i\<bar> < 2 ^ 53"
  then have n: "nat \<bar>i\<bar> < 2 ^ 53"
    by (simp add: nat_less_iff)
  have "(2::nat) ^ 53 \<le> 2 ^ 1024"
    by (rule power_increasing) simp_all
  with n have "nat \<bar>i\<bar> < 2 ^ 1024" by simp
  with n show ?thesis by (simp add: is_double_def round_to_double_small)
qed

lemma number_value_double:
  "is_double i \<Longrightarrow> number_value (i < 0) (nat \<bar>i\<bar>) = Num i"
  by (auto simp: is_double_def number_value_def Let_def)

lemma parseInt_dec_nat_value: "parseInt (dec_nat n) = number_value False n"
proof -
  obtain c r where cr: "dec_nat n = c # r"
    using dec_nat_nonempty [of n] by (cases "dec_nat n") auto
  have cdig: "c \<in> set ''0123456789''"
    using dec_nat_chars(3) [of c n] cr by simp
  have rdig: "\<And>b t. r = b # t \<Longrightarrow> b \<in> set ''0123456789''"
    using dec_nat_chars(3) [of _ n] cr by simp
  have 1: "\<not> is_space c" using dec_nat_chars(2) [of c n] cr by simp
  have 2: "c \<noteq> CHR ''-''" "c \<noteq> CHR ''+''" using cdig by auto
  have 3: "\<not> (c = CHR ''0'' \<and> (\<exists>b t. r = b # t \<and> (b = CHR ''x'' \<or> b = CHR ''X'')))"
    using rdig by auto
  have 4: "\<forall>x\<in>set (c # r). is_digit 10 x"
    using dec_nat_chars(1) [of _ n] cr by simp
  have "parseInt (c # r) = number_value False (digits_value 10 (c # r))"
    by (rule parseInt_digits [OF 1 2 3 4])
  then show ?thesis
    using digits_value_dec_nat [of n] by (simp only: cr [symmetric])
qed

lemma parseInt_minus_digits:
  assumes "\<not> (c = CHR ''0'' \<and> (\<exists>b t. r = b # t \<and> (b = CHR ''x'' \<or> b = CHR ''X'')))"
    and "\<forall>x\<in>set (c # r). is_digit 10 x"
  shows "parseInt (CHR ''-'' # c # r) = number_value True (digits_value 10 (c # r))"
proof -
  have hex: "(case r of [] \<Rightarrow> False | b # t \<Rightarrow> c = CHR ''0'' \<and> (b = CHR ''x'' \<or> b = CHR ''X'')) = False"
    using assms(1) by (cases r) auto
  have tw: "takeWhile (is_digit 10) (c # r) = c # r"
    using assms(2) by (simp only: takeWhile_eq_all_conv)
  have dw: "dropWhile is_space (CHR ''-'' # c # r) = CHR ''-'' # c # r"
    by (simp add: is_space_def)
  show ?thesis
    unfolding parseInt_def dw Let_def
    by (simp only: list.case hex tw if_False if_True simp_thms list.distinct)
qed

lemma parseInt_minus_dec_nat: "parseInt (CHR ''-'' # dec_nat n) = number_value True n"
proof -
  obtain c r where cr: "dec_nat n = c # r"
    using dec_nat_nonempty [of n] by (cases "dec_nat n") auto
  have rdig: "\<And>b t. r = b # t \<Longrightarrow> b \<in> set ''0123456789''"
    using dec_nat_chars(3) [of _ n] cr by simp
  have 1: "\<not> (c = CHR ''0'' \<and> (\<exists>b t. r = b # t \<and> (b = CHR ''x'' \<or> b = CHR ''X'')))"
    using rdig by auto
  have 2: "\<forall>x\<in>set (c # r). is_digit 10 x"
    using dec_nat_chars(1) [of _ n] cr by simp
  have "parseInt (CHR ''-'' # c # r) = number_value True (digits_value 10 (c # r))"
    by (rule parseInt_minus_digits [OF 1 2])
  then show ?thesis
    using digits_value_dec_nat [of n] by (simp only: cr [symmetric])
qed

lemma parseInt_dec_int_value: "parseInt (dec_int i) = number_value (i < 0) (nat \<bar>i\<bar>)"
proof (cases "i < 0")
  case False
  then show ?thesis by (simp add: dec_int_def parseInt_dec_nat_value)
next
  case True
  then have "nat (- i) = nat \<bar>i\<bar>" by simp
  then show ?thesis
    using True parseInt_minus_dec_nat [of "nat (- i)"] by (simp add: dec_int_def)
qed

lemma parseInt_dec_int: "is_double i \<Longrightarrow> parseInt (dec_int i) = Num i"
  by (simp add: parseInt_dec_int_value number_value_double)

lemma parseInt_fifty: "parseInt ''50'' = Num 50"
proof -
  have "dec_int 50 = ''50''"
    by (simp add: dec_int_def dec_nat_eval digit_char_eval)
  moreover have "is_double 50"
    by (rule is_double_small) simp
  ultimately show ?thesis
    using parseInt_dec_int [of 50] by simp
qed

lemma bit_length_eval:
  "bit_length 0 = 0" "bit_length (Suc 0) = 1"
  "bit_length (numeral k) = 1 + bit_length (numeral k div 2)"
  by (subst bit_length.simps, simp)+

text \<open>The first integer that no double holds is read as its neighbour.\<close>

lemma parseInt_rounds:
  "parseInt ''9007199254740993'' = Num 9007199254740992 \<and> \<not> is_double 9007199254740993"
proof -
  have d: "dec_nat 9007199254740993 = ''9007199254740993''"
    by (simp add: dec_nat_eval digit_char_eval)
  have r: "round_to_double 9007199254740993 = 9007199254740992"
    by (simp add: round_to_double_def bit_length_eval Let_def)
  have "number_value False 9007199254740993 = Num 9007199254740992"
    by (simp add: number_value_def r)
  then have "parseInt ''9007199254740993'' = Num 9007199254740992"
    using parseInt_dec_nat_value [of 9007199254740993] by (simp add: d)
  moreover have "\<not> is_double 9007199254740993"
    by (simp add: is_double_def r)
  ultimately show ?thesis by (rule conjI)
qed

lemma parseInt_not_Undefined: "parseInt s \<noteq> Undefined"
proof -
  have h: "\<And>b neg v. (if b then NaN else number_value neg v) \<noteq> Undefined"
    by (simp add: number_value_def Let_def)
  show ?thesis unfolding parseInt_def Let_def by (rule h)
qed

section \<open>The renderer computes its closed form\<close>

lemma widen_fold:
  "list_all (\<lambda>row. \<not> isl (cell_text col row)) rows \<Longrightarrow>
   widen col rows w = Inr (fold max (map (\<lambda>row. length (text_of col row)) rows) w)"
proof (induction rows arbitrary: w)
  case Nil
  show ?case by simp
next
  case (Cons row rows)
  from Cons.prems obtain t where t: "cell_text col row = Inr t"
    by (cases "cell_text col row") auto
  have rest: "list_all (\<lambda>row. \<not> isl (cell_text col row)) rows"
    using Cons.prems by simp
  have "(if length t > w then length t else w) = max (length t) w" by simp
  then show ?case
    using Cons.IH [OF rest, of "max (length t) w"] t by (simp add: text_of_def)
qed

lemma widen_documented:
  assumes "list_all (\<lambda>row. \<not> isl (cell_text col row)) rows"
  shows "(case widen col rows (length (label col)) of Inl e \<Rightarrow> None | Inr w \<Rightarrow> Some (min w 40))
           = Some (documented_width col rows)"
  unfolding documented_width_def Max.set_eq_fold widen_fold [OF assms]
  by (simp add: min.commute)

lemma widen_raises:
  "\<not> list_all (\<lambda>row. \<not> isl (cell_text col row)) rows \<Longrightarrow> isl (widen col rows w)"
proof (induction rows arbitrary: w)
  case Nil
  then show ?case by simp
next
  case (Cons row rows)
  then show ?case by (cases "cell_text col row") auto
qed

lemma compute_widths_fold:
  "renders columns rows \<Longrightarrow>
   compute_widths columns rows widths
     = Inr (fold (\<lambda>col ws. ws(key col \<mapsto> documented_width col rows)) columns widths)"
proof (induction columns arbitrary: widths)
  case Nil
  show ?case by simp
next
  case (Cons col columns)
  have ok: "list_all (\<lambda>row. \<not> isl (cell_text col row)) rows" and rest: "renders columns rows"
    using Cons.prems by (simp_all add: renders_def)
  obtain w where w: "widen col rows (length (label col)) = Inr w" "min w 40 = documented_width col rows"
    using widen_documented [OF ok] by (cases "widen col rows (length (label col))") auto
  show ?case using Cons.IH [OF rest] w by simp
qed

lemma compute_widths_renders:
  "renders columns rows \<Longrightarrow> compute_widths columns rows Map.empty = Inr (table_widths columns rows)"
  by (simp add: compute_widths_fold table_widths_def)

lemma compute_widths_raises:
  "\<not> renders columns rows \<Longrightarrow> isl (compute_widths columns rows widths)"
proof (induction columns arbitrary: widths)
  case Nil
  then show ?case by (simp add: renders_def)
next
  case (Cons col columns)
  show ?case
  proof (cases "widen col rows (length (label col))")
    case (Inl e)
    then show ?thesis by simp
  next
    case (Inr w)
    then have "list_all (\<lambda>row. \<not> isl (cell_text col row)) rows"
      using widen_raises [of col rows "length (label col)"] by auto
    with Cons.prems have "\<not> renders columns rows" by (simp add: renders_def)
    then show ?thesis using Cons.IH Inr by simp
  qed
qed

lemma fold_widths_other:
  "k \<notin> key ` set columns \<Longrightarrow>
   fold (\<lambda>col ws. ws(key col \<mapsto> f col)) columns widths k = widths k"
  by (induction columns arbitrary: widths) auto

lemma fold_widths_distinct:
  "distinct (map key columns) \<Longrightarrow> col \<in> set columns \<Longrightarrow>
   fold (\<lambda>col ws. ws(key col \<mapsto> f col)) columns widths (key col) = Some (f col)"
proof (induction columns arbitrary: widths)
  case Nil
  then show ?case by simp
next
  case (Cons c columns)
  show ?case
  proof (cases "col = c")
    case True
    with Cons.prems(1) have "key c \<notin> key ` set columns" by auto
    then have "fold (\<lambda>col ws. ws(key col \<mapsto> f col)) columns (widths(key c \<mapsto> f c)) (key c)
        = (widths(key c \<mapsto> f c)) (key c)"
      by (rule fold_widths_other)
    then show ?thesis using True by (simp add: fun_upd_same del: fun_upd_apply)
  next
    case False
    with Cons.prems show ?thesis using Cons.IH by auto
  qed
qed

lemma table_widths_distinct:
  "distinct (map key columns) \<Longrightarrow> col \<in> set columns \<Longrightarrow>
   table_widths columns rows (key col) = Some (documented_width col rows)"
  unfolding table_widths_def by (rule fold_widths_distinct)

lemma row_cells_renders:
  "list_all (\<lambda>col. \<not> isl (cell_text col row)) columns \<Longrightarrow>
   row_cells columns widths row
     = Inr (map (\<lambda>col. pad_to widths (key col) (cut_to widths (key col) (text_of col row))) columns)"
proof (induction columns)
  case Nil
  show ?case by simp
next
  case (Cons col columns)
  from Cons.prems obtain t where t: "cell_text col row = Inr t"
    by (cases "cell_text col row") auto
  show ?case using Cons t by (simp add: text_of_def)
qed

lemma renders_row:
  "renders columns rows \<Longrightarrow> row \<in> set rows \<Longrightarrow> list_all (\<lambda>col. \<not> isl (cell_text col row)) columns"
  by (auto simp: renders_def list_all_iff)

lemma print_rows_renders:
  "(\<And>row. row \<in> set rows \<Longrightarrow> list_all (\<lambda>col. \<not> isl (cell_text col row)) columns) \<Longrightarrow>
   print_rows columns widths rows
     = (map (\<lambda>row. ConsoleLog [Str (row_line columns widths row)]) rows, None)"
proof (induction rows)
  case Nil
  show ?case by simp
next
  case (Cons row rows)
  have "list_all (\<lambda>col. \<not> isl (cell_text col row)) columns" using Cons.prems by simp
  then show ?case using Cons by (simp add: row_cells_renders row_line_def)
qed

lemma length_Arr_nonzero: "get_prop_opt (Arr rows) ''length'' = Num 0 \<longleftrightarrow> rows = []"
  by (simp add: get_prop_opt_def)

lemma printTable_renders:
  assumes "rows \<noteq> []" "renders columns rows"
  shows "printTable env (Arr rows) columns =
    ([ConsoleLog [Str (chalk env Bold (chalk env Cyan (header_line columns (table_widths columns rows))))],
      ConsoleLog [Str (chalk env Dim
        (repeat BOX_HORIZONTAL (length (header_line columns (table_widths columns rows)))))]]
     @ map (\<lambda>row. ConsoleLog [Str (row_line columns (table_widths columns rows) row)]) rows
     @ [ConsoleLog [Str (chalk env Dim ([CHR 0x0A] @ dec_nat (length rows) @ '' result(s)''))]],
     None)"
proof -
  have pr: "print_rows columns (table_widths columns rows) rows
     = (map (\<lambda>row. ConsoleLog [Str (row_line columns (table_widths columns rows) row)]) rows, None)"
    by (rule print_rows_renders) (rule renders_row [OF assms(2)])
  show ?thesis
    using assms(1)
    by (simp add: printTable_def length_Arr_nonzero compute_widths_renders [OF assms(2)] pr
        Let_def dec_int_def)
qed

lemma printTable_raises:
  assumes "rows \<noteq> []" "\<not> renders columns rows"
  shows "\<exists>e. printTable env (Arr rows) columns = ([], Some e)"
proof -
  obtain e where "compute_widths columns rows Map.empty = Inl e"
    using compute_widths_raises [OF assms(2), of Map.empty]
    by (cases "compute_widths columns rows Map.empty") auto
  then show ?thesis using assms(1) by (simp add: printTable_def length_Arr_nonzero)
qed

lemma printTable_empty:
  "printTable env (Arr []) columns = ([ConsoleLog [Str (chalk env Yellow ''No results found.'')]], None)"
  by (simp add: printTable_def get_prop_opt_def)

lemma padEnd_substring0:
  "length (padEnd (substring0 t w) w) = w"
  "length t > w \<Longrightarrow> padEnd (substring0 t w) w = take w t"
  "padEnd (substring0 [] w) w = replicate w (CHR '' '')"
  by (simp_all add: padEnd_def substring0_def)

lemma row_line_distinct:
  assumes "distinct (map key columns)"
  shows "row_line columns (table_widths columns rows) row =
    join ''  '' (map (\<lambda>col. padEnd (substring0 (text_of col row) (documented_width col rows))
                                  (documented_width col rows)) columns)"
proof -
  have "pad_to (table_widths columns rows) (key col)
          (cut_to (table_widths columns rows) (key col) (text_of col row))
        = padEnd (substring0 (text_of col row) (documented_width col rows)) (documented_width col rows)"
    if "col \<in> set columns" for col
    by (simp add: pad_to_def cut_to_def table_widths_distinct [OF assms that])
  then show ?thesis by (simp add: row_line_def cong: map_cong)
qed

lemma header_line_distinct:
  assumes "distinct (map key columns)"
  shows "header_line columns (table_widths columns rows) =
    join ''  '' (map (\<lambda>col. padEnd (label col) (documented_width col rows)) columns)"
proof -
  have "pad_to (table_widths columns rows) (key col) (label col)
        = padEnd (label col) (documented_width col rows)"
    if "col \<in> set columns" for col
    by (simp add: pad_to_def table_widths_distinct [OF assms that])
  then show ?thesis by (simp add: header_line_def cong: map_cong)
qed

lemma cell_text_cases:
  "get_prop row (key col) = Inr v \<Longrightarrow> format col = Some f \<Longrightarrow>
     cell_text col row = (case f v row of Inl e \<Rightarrow> Inl e | Inr r \<Rightarrow> Inr (ToString r))"
  "get_prop row (key col) = Inr v \<Longrightarrow> format col = None \<Longrightarrow> \<not> nullish v \<Longrightarrow>
     cell_text col row = Inr (ToString v)"
  "get_prop row (key col) = Inr v \<Longrightarrow> format col = None \<Longrightarrow> nullish v \<Longrightarrow>
     cell_text col row = Inr []"
  by (simp_all add: cell_text_def js_coalesce_def)

section \<open>The requests of a run\<close>

lemma requests_of_append: "requests_of (xs @ ys) = requests_of xs @ requests_of ys"
  by (induction xs rule: requests_of.induct) simp_all

lemma requests_of_fail: "requests_of (fail env e) = []"
  by (simp add: fail_def printError_def)

lemma requests_of_print_rows: "requests_of (fst (print_rows columns widths rows)) = []"
proof (induction rows)
  case Nil
  show ?case by simp
next
  case (Cons row rows)
  then show ?case
    by (cases "row_cells columns widths row"; cases "print_rows columns widths rows") simp_all
qed

lemma requests_of_printTable: "requests_of (fst (printTable env data columns)) = []"
proof (cases "\<not> truthy data \<or> get_prop_opt data ''length'' = Num 0")
  case True
  then show ?thesis by (simp add: printTable_def)
next
  case False
  show ?thesis
  proof (cases data)
    case (Arr rows)
    show ?thesis
    proof (cases "compute_widths columns rows Map.empty")
      case (Inl e)
      then show ?thesis using False Arr by (simp add: printTable_def)
    next
      case (Inr widths)
      obtain evs err where pr: "print_rows columns widths rows = (evs, err)"
        by (cases "print_rows columns widths rows")
      have "requests_of evs = []"
        using requests_of_print_rows [of columns widths rows] pr by simp
      then show ?thesis
        using False Arr Inr pr
        by (cases err) (simp_all add: printTable_def Let_def requests_of_append)
    qed
  qed (use False in \<open>simp_all add: printTable_def\<close>)
qed

lemma requests_of_run_steps:
  "list_all (\<lambda>s. case s of Inl e \<Rightarrow> True | Inr ev \<Rightarrow> requests_of [ev] = []) steps \<Longrightarrow>
   requests_of (fst (run_steps steps)) = []"
proof (induction steps rule: run_steps.induct)
  case 1
  show ?case by simp
next
  case (2 e steps)
  show ?case by simp
next
  case (3 ev steps)
  then have "requests_of [ev] = []" "requests_of (fst (run_steps steps)) = []" by simp_all
  then show ?case
    using requests_of_append [of "[ev]" "fst (run_steps steps)"]
    by (cases "run_steps steps") simp
qed

lemma log_prop_console:
  "(case log_prop obj k args of Inl e \<Rightarrow> True | Inr ev \<Rightarrow> requests_of [ev] = [])"
  by (simp add: log_prop_def split: sum.splits)

lemma requests_of_finish:
  "requests_of (fst r) = [] \<Longrightarrow> requests_of (finish env r) = []"
  by (cases r; cases "snd r") (simp_all add: finish_def requests_of_append requests_of_fail)

lemma requests_of_field_details:
  "requests_of (finish env (run_steps (field_details env ident data))) = []"
  by (rule requests_of_finish, rule requests_of_run_steps)
     (simp add: field_details_def log_prop_console)

lemma requests_of_farm_details:
  "requests_of (finish env (run_steps (farm_details env ident data))) = []"
  by (rule requests_of_finish, rule requests_of_run_steps)
     (simp add: farm_details_def log_prop_console)

lemma requests_of_boundary_details:
  "requests_of (finish env (run_steps (boundary_details env ident data))) = []"
  by (rule requests_of_finish, rule requests_of_run_steps)
     (simp add: boundary_details_def log_prop_console)

lemma requests_of_activity_details:
  "requests_of (finish env (run_steps (activity_details env title ident data))) = []"
  by (rule requests_of_finish, rule requests_of_run_steps)
     (simp add: activity_details_def log_prop_console)

lemma fst_send: "fst (send cfg net req) = [Http (getClient cfg) req]"
  by (simp add: send_def Let_def)

lemma requireAuth_cases:
  "isConfigured cfg \<Longrightarrow> requireAuth env cfg = None"
  "\<not> isConfigured cfg \<Longrightarrow>
   requireAuth env cfg =
     Some [printError env ''Climate FieldView credentials not configured.'',
           ConsoleLog [Str ([CHR 0x0A] @ ''Run the following to configure:'')],
           ConsoleLog [Str (chalk env Cyan ''  climatecom config set --api-key <key>'')],
           Exit 1]"
  by (simp_all add: requireAuth_def)

lemma requests_of_list_action:
  assumes "isConfigured cfg"
    and "fst (operation cfg net (parseInt (option_limit options))) = [Http (getClient cfg) req]"
  shows "requests_of (list_action env cfg net text operation columns options) = [(getClient cfg, req)]"
proof -
  obtain evs result where op: "operation cfg net (parseInt (option_limit options)) = (evs, result)"
    by (cases "operation cfg net (parseInt (option_limit options))")
  with assms(2) have evs: "evs = [Http (getClient cfg) req]" by simp
  show ?thesis
  proof (cases result)
    case (Inl error)
    then show ?thesis
      using assms(1) op evs
      by (simp add: list_action_def requireAuth_cases withSpinner_def requests_of_append requests_of_fail)
  next
    case (Inr data)
    show ?thesis
    proof (cases "json_flag options")
      case True
      then show ?thesis
        using assms(1) op evs Inr
        by (simp add: list_action_def requireAuth_cases withSpinner_def requests_of_append printJson_def)
    next
      case False
      show ?thesis
      proof (cases "extract_records data")
        case (Inl error)
        then show ?thesis
          using assms(1) op evs Inr False
          by (simp add: list_action_def requireAuth_cases withSpinner_def requests_of_append
              requests_of_fail)
      next
        case (Inr records)
        obtain out err where pt: "printTable env records columns = (out, err)"
          by (cases "printTable env records columns")
        have "requests_of out = []"
          using requests_of_printTable [of env records columns] pt by simp
        then show ?thesis
          using assms(1) op evs \<open>result = Inr data\<close> False Inr pt
          by (cases err)
             (simp_all add: list_action_def requireAuth_cases withSpinner_def requests_of_append
               requests_of_fail)
      qed
    qed
  qed
qed

lemma requests_of_get_action:
  assumes "isConfigured cfg"
    and "fst (operation cfg net (Str ident)) = [Http (getClient cfg) req]"
    and "\<And>data. requests_of (finish env (run_steps (details data))) = []"
  shows "requests_of (get_action env cfg net text operation details ident json) = [(getClient cfg, req)]"
proof -
  obtain evs result where op: "operation cfg net (Str ident) = (evs, result)"
    by (cases "operation cfg net (Str ident)")
  with assms(2) have evs: "evs = [Http (getClient cfg) req]" by simp
  show ?thesis
    using assms(1) op evs assms(3)
    by (cases result)
       (simp_all add: get_action_def requireAuth_cases withSpinner_def requests_of_append
         requests_of_fail printJson_def)
qed

lemma requests_of_fields_create:
  assumes "isConfigured cfg"
  shows "requests_of (fields_create env cfg net options)
           = [(getClient cfg, request_of env (FieldsCreate options))]"
proof -
  let ?op = "createField cfg net (Str (name_arg options)) (option_acres env options) Undefined"
  obtain evs result where op: "?op = (evs, result)" by (cases ?op)
  have "fst ?op = [Http (getClient cfg) (request_of env (FieldsCreate options))]"
    by (simp add: createField_def fst_send)
  with op have evs: "evs = [Http (getClient cfg) (request_of env (FieldsCreate options))]" by simp
  have steps: "\<And>field. requests_of (finish env (run_steps
      [Inr (printSuccess env (''Field created: '' @ chalk env Bold (name_arg options))),
       log_prop field ''id'' (\<lambda>v. Inr [Str ''Field ID: '', js_or v (Str ''N/A'')])])) = []"
    by (rule requests_of_finish, rule requests_of_run_steps)
       (simp add: printSuccess_def log_prop_console)
  show ?thesis
    using assms op evs steps
    by (cases result)
       (simp_all add: fields_create_def requireAuth_cases withSpinner_def requests_of_append
         requests_of_fail printJson_def del: request_of.simps)
qed

lemma limit_parseInt: "limit_or_default (parseInt s) = parseInt s"
  by (simp add: limit_or_default_def parseInt_not_Undefined)

lemma requests_of_run:
  "requests_of (run env cfg net cmd)
     = (if isConfigured cfg then [(getClient cfg, request_of env cmd)] else [])"
proof (cases "isConfigured cfg")
  case False
  then show ?thesis
    by (cases cmd)
       (simp_all add: fields_list_def farms_list_def boundaries_list_def harvest_list_def
         planting_list_def fields_get_def farms_get_def boundaries_get_def harvest_get_def
         planting_get_def fields_create_def list_action_def get_action_def requireAuth_cases
         printError_def)
next
  case True
  show ?thesis
  proof (cases cmd)
    case (FieldsList options)
    then show ?thesis using True
      by (simp add: fields_list_def requests_of_list_action listFields_def fst_send limit_parseInt)
  next
    case (FieldsGet ident json)
    then show ?thesis using True
      by (simp add: fields_get_def requests_of_get_action getField_def fst_send
          requests_of_field_details)
  next
    case (FieldsCreate options)
    then show ?thesis using True
      by (simp add: requests_of_fields_create del: request_of.simps)
  next
    case (FarmsList options)
    then show ?thesis using True
      by (simp add: farms_list_def requests_of_list_action listFarms_def fst_send limit_parseInt)
  next
    case (FarmsGet ident json)
    then show ?thesis using True
      by (simp add: farms_get_def requests_of_get_action getFarm_def fst_send
          requests_of_farm_details)
  next
    case (BoundariesList options)
    then show ?thesis using True
      by (simp add: boundaries_list_def requests_of_list_action listBoundaries_def fst_send
          limit_parseInt)
  next
    case (BoundariesGet ident json)
    then show ?thesis using True
      by (simp add: boundaries_get_def requests_of_get_action getBoundary_def fst_send
          requests_of_boundary_details)
  next
    case (HarvestList options)
    then show ?thesis using True
      by (simp add: harvest_list_def requests_of_list_action listHarvestActivities_def fst_send
          limit_parseInt)
  next
    case (HarvestGet ident json)
    then show ?thesis using True
      by (simp add: harvest_get_def requests_of_get_action getHarvestActivity_def fst_send
          requests_of_activity_details)
  next
    case (PlantingList options)
    then show ?thesis using True
      by (simp add: planting_list_def requests_of_list_action listPlantingActivities_def fst_send
          limit_parseInt)
  next
    case (PlantingGet ident json)
    then show ?thesis using True
      by (simp add: planting_get_def requests_of_get_action getPlantingActivity_def fst_send
          requests_of_activity_details)
  qed
qed

lemma run_unconfigured:
  "\<not> isConfigured cfg \<Longrightarrow>
   run env cfg net cmd =
     [printError env ''Climate FieldView credentials not configured.'',
      ConsoleLog [Str ([CHR 0x0A] @ ''Run the following to configure:'')],
      ConsoleLog [Str (chalk env Cyan ''  climatecom config set --api-key <key>'')],
      Exit 1]"
  by (cases cmd)
     (simp_all add: fields_list_def farms_list_def boundaries_list_def harvest_list_def
       planting_list_def fields_get_def farms_get_def boundaries_get_def harvest_get_def
       planting_get_def fields_create_def list_action_def get_action_def requireAuth_cases)

section \<open>The claims\<close>

text \<open>
  C1. \<open>handleApiError\<close> maps every failure: a response with status 401, 403, 404 or 429
  gives the error of that status whatever the body is (the spec's AuthenticationError,
  PermissionError, NotFoundError and RateLimitError are plain \<open>Error\<close>s told apart by
  their fixed texts); a response with any other status gives the API error, whose text is
  \<open>API Error (status): \<close> followed by \<open>body.message\<close>, else \<open>body.error\<close>, else
  the stringified body, where "else" is JavaScript's \<open>||\<close>; a failure with a request
  and no response gives the network error; any other failure is thrown again unchanged.
\<close>

theorem handleApiError_mapping:
  "handleApiError \<lparr>message = m, response = Some (401, body), request = rq\<rparr>
     = Error ''Authentication failed. Check your API key.'' \<and>
   handleApiError \<lparr>message = m, response = Some (403, body), request = rq\<rparr>
     = Error ''Access forbidden. Check your API permissions.'' \<and>
   handleApiError \<lparr>message = m, response = Some (404, body), request = rq\<rparr>
     = Error ''Resource not found.'' \<and>
   handleApiError \<lparr>message = m, response = Some (429, body), request = rq\<rparr>
     = Error ''Rate limit exceeded. Please wait before retrying.'' \<and>
   (status \<notin> {401, 403, 404, 429} \<longrightarrow>
    handleApiError \<lparr>message = m, response = Some (status, body), request = rq\<rparr>
      = Error (''API Error ('' @ dec_int status @ ''): '' @
          ToString (if truthy (get_prop_opt body ''message'') then get_prop_opt body ''message''
                    else if truthy (get_prop_opt body ''error'') then get_prop_opt body ''error''
                    else JSON_stringify body))) \<and>
   handleApiError \<lparr>message = m, response = None, request = True\<rparr>
     = Error ''No response from Climate FieldView API. Check your internet connection.'' \<and>
   handleApiError \<lparr>message = m, response = None, request = False\<rparr>
     = \<lparr>message = m, response = None, request = False\<rparr>"
  by (simp add: handleApiError_def api_error_detail_def js_or_def)

theorem handleApiError_mapping_witness:
  "(500::int) \<notin> {401, 403, 404, 429} \<and>
   handleApiError \<lparr>message = ''Request failed with status code 500'',
       response = Some (500, Obj [(''message'', Str []), (''error'', Str ''boom'')]),
       request = True\<rparr>
     = Error ''API Error (500): boom''"
  using handleApiError_mapping [of "''Request failed with status code 500''"
      "Obj [(''message'', Str []), (''error'', Str ''boom'')]" True 500]
  by (simp add: get_prop_opt_def dec_int_def dec_nat_eval digit_char_eval)

text \<open>
  C2 (as stated, refuted). With the body \<open>{"results":[{"id":"a1","name":"Farm A"}]}\<close>,
  \<open>farms list --json\<close> prints the whole body, envelope included, and not the array under
  \<open>results\<close>.
\<close>

theorem farms_list_json_counterexample:
  "run plain (default_config\<lparr>apiKey := ''k''\<rparr>)
      (\<lambda>c r. Resolved (Obj [(''results'', Arr [Obj [(''id'', Str ''a1''), (''name'', Str ''Farm A'')]])]))
      (FarmsList \<lparr>limit_arg = None, json_flag = True\<rparr>)
     = [SpinnerStart ''Fetching farms...'',
        Http (getClient (default_config\<lparr>apiKey := ''k''\<rparr>)) (GET ''/v4/farms'' [(''limit'', Num 50)]),
        SpinnerStop,
        ConsoleLog [JSON_stringify_indent 2
          (Obj [(''results'', Arr [Obj [(''id'', Str ''a1''), (''name'', Str ''Farm A'')]])])]] \<and>
   JSON_stringify_indent 2 (Obj [(''results'', Arr [Obj [(''id'', Str ''a1''), (''name'', Str ''Farm A'')]])])
     \<noteq> JSON_stringify_indent 2 (Arr [Obj [(''id'', Str ''a1''), (''name'', Str ''Farm A'')]])"
proof -
  have fifty: "parseInt ''50'' = Num 50"
    by (rule parseInt_fifty)
  have "run plain (default_config\<lparr>apiKey := ''k''\<rparr>)
      (\<lambda>c r. Resolved (Obj [(''results'', Arr [Obj [(''id'', Str ''a1''), (''name'', Str ''Farm A'')]])]))
      (FarmsList \<lparr>limit_arg = None, json_flag = True\<rparr>)
     = [SpinnerStart ''Fetching farms...'',
        Http (getClient (default_config\<lparr>apiKey := ''k''\<rparr>)) (GET ''/v4/farms'' [(''limit'', Num 50)]),
        SpinnerStop,
        ConsoleLog [JSON_stringify_indent 2
          (Obj [(''results'', Arr [Obj [(''id'', Str ''a1''), (''name'', Str ''Farm A'')]])])]]"
    by (simp add: farms_list_def list_action_def requireAuth_def isConfigured_def withSpinner_def
        listFarms_def send_def Let_def option_limit_def fifty limit_or_default_def printJson_def)
  moreover have "JSON_stringify_indent 2
        (Obj [(''results'', Arr [Obj [(''id'', Str ''a1''), (''name'', Str ''Farm A'')]])])
     \<noteq> JSON_stringify_indent 2 (Arr [Obj [(''id'', Str ''a1''), (''name'', Str ''Farm A'')]])"
    by (simp add: JSON_stringify_indent_def)
  ultimately show ?thesis by (rule conjI)
qed

text \<open>
  C2 (amended). For a configured client, \<open>farms list --json\<close> prints the decoded body as it
  came, pretty-printed with two spaces of indentation: for the body
  \<open>{"results":[{"id":"a1","name":"Farm A"}]}\<close> that is the object with its
  \<open>results\<close> key, not the bare array.
\<close>

theorem farms_list_json:
  "isConfigured cfg \<and> json_flag options
   \<and> net (getClient cfg) (GET ''/v4/farms'' [(''limit'', parseInt (option_limit options))]) = Resolved body
   \<longrightarrow> run env cfg net (FarmsList options)
     = [SpinnerStart ''Fetching farms...'',
        Http (getClient cfg) (GET ''/v4/farms'' [(''limit'', parseInt (option_limit options))]),
        SpinnerStop,
        ConsoleLog [JSON_stringify_indent 2 body]]"
  by (simp add: farms_list_def list_action_def requireAuth_cases withSpinner_def listFarms_def
      send_def Let_def limit_parseInt printJson_def)

theorem farms_list_json_witness:
  "run plain (default_config\<lparr>apiKey := ''k''\<rparr>)
      (\<lambda>c r. Resolved (Obj [(''results'', Arr [Obj [(''id'', Str ''a1''), (''name'', Str ''Farm A'')]])]))
      (FarmsList \<lparr>limit_arg = None, json_flag = True\<rparr>)
     = [SpinnerStart ''Fetching farms...'',
        Http \<lparr>baseURL = ''https://platform.climate.com'',
              headers = [(''Authorization'', ''Bearer k''), (''Accept'', ''application/json''),
                         (''Content-Type'', ''application/json'')]\<rparr>
          (GET ''/v4/farms'' [(''limit'', Num 50)]),
        SpinnerStop,
        ConsoleLog [Str (''{'' @ [CHR 0x0A]
          @ ''  '' @ [CHR 0x22] @ ''results'' @ [CHR 0x22] @ '': ['' @ [CHR 0x0A]
          @ ''    {'' @ [CHR 0x0A]
          @ ''      '' @ [CHR 0x22] @ ''id'' @ [CHR 0x22] @ '': '' @ [CHR 0x22] @ ''a1'' @ [CHR 0x22] @ '','' @ [CHR 0x0A]
          @ ''      '' @ [CHR 0x22] @ ''name'' @ [CHR 0x22] @ '': '' @ [CHR 0x22] @ ''Farm A'' @ [CHR 0x22] @ [CHR 0x0A]
          @ ''    }'' @ [CHR 0x0A]
          @ ''  ]'' @ [CHR 0x0A]
          @ ''}'')]]"
proof -
  have fifty: "parseInt ''50'' = Num 50"
    by (rule parseInt_fifty)
  have c: "isConfigured (default_config\<lparr>apiKey := ''k''\<rparr>)"
    by (simp add: isConfigured_def)
  have j: "JSON_stringify_indent 2
      (Obj [(''results'', Arr [Obj [(''id'', Str ''a1''), (''name'', Str ''Farm A'')]])])
    = Str (''{'' @ [CHR 0x0A]
          @ ''  '' @ [CHR 0x22] @ ''results'' @ [CHR 0x22] @ '': ['' @ [CHR 0x0A]
          @ ''    {'' @ [CHR 0x0A]
          @ ''      '' @ [CHR 0x22] @ ''id'' @ [CHR 0x22] @ '': '' @ [CHR 0x22] @ ''a1'' @ [CHR 0x22] @ '','' @ [CHR 0x0A]
          @ ''      '' @ [CHR 0x22] @ ''name'' @ [CHR 0x22] @ '': '' @ [CHR 0x22] @ ''Farm A'' @ [CHR 0x22] @ [CHR 0x0A]
          @ ''    }'' @ [CHR 0x0A]
          @ ''  ]'' @ [CHR 0x0A]
          @ ''}'')"
    by (simp add: JSON_stringify_indent_def json_quote_def json_escape_def numeral_2_eq_2)
  show ?thesis
    using c farms_list_json [of "default_config\<lparr>apiKey := ''k''\<rparr>"
        "\<lparr>limit_arg = None, json_flag = True\<rparr>"
        "\<lambda>c r. Resolved (Obj [(''results'', Arr [Obj [(''id'', Str ''a1''), (''name'', Str ''Farm A'')]])])"
        "Obj [(''results'', Arr [Obj [(''id'', Str ''a1''), (''name'', Str ''Farm A'')]])]" plain]
    by (simp add: option_limit_def fifty j getClient_def BASE_URL_def del: run.simps)
qed

text \<open>
  C3. Record extraction does not raise on any of the four documented shapes: an object
  whose \<open>results\<close> is a sequence gives that sequence; an object without \<open>results\<close>
  whose \<open>data\<close> is a sequence gives that one; a bare sequence gives itself; an object
  with neither key gives the one-element sequence holding it. On every body other than
  \<open>undefined\<close> and \<open>null\<close> it returns, by the rule \<open>results || data || (itself if a
  sequence, else wrapped)\<close>.
\<close>

theorem extract_records_total:
  "(map_of kvs ''results'' = Some (Arr rs) \<longrightarrow> extract_records (Obj kvs) = Inr (Arr rs)) \<and>
   (map_of kvs ''results'' = None \<and> map_of kvs ''data'' = Some (Arr ds)
      \<longrightarrow> extract_records (Obj kvs) = Inr (Arr ds)) \<and>
   extract_records (Arr xs) = Inr (Arr xs) \<and>
   (map_of kvs ''results'' = None \<and> map_of kvs ''data'' = None
      \<longrightarrow> extract_records (Obj kvs) = Inr (Arr [Obj kvs])) \<and>
   (\<not> nullish body \<longrightarrow>
      extract_records body =
        Inr (if truthy (get_prop_opt body ''results'') then get_prop_opt body ''results''
             else if truthy (get_prop_opt body ''data'') then get_prop_opt body ''data''
             else if is_array body then body else Arr [body]))"
proof -
  have arr: "extract_records (Arr xs) = Inr (Arr xs)"
    by (simp add: extract_records_def index_of_key_envelope is_array_def)
  have gen: "\<not> nullish body \<Longrightarrow>
      extract_records body =
        Inr (if truthy (get_prop_opt body ''results'') then get_prop_opt body ''results''
             else if truthy (get_prop_opt body ''data'') then get_prop_opt body ''data''
             else if is_array body then body else Arr [body])"
    by (cases body) (simp_all add: nullish_def extract_records_def get_prop_opt_def)
  show ?thesis
    using arr gen by (simp add: extract_records_def is_array_def)
qed

theorem extract_records_total_witness:
  "extract_records (Obj [(''results'', Arr [Obj [(''id'', Str ''a1'')]])])
     = Inr (Arr [Obj [(''id'', Str ''a1'')]]) \<and>
   extract_records (Obj [(''data'', Arr [Obj [(''id'', Str ''a1'')]])])
     = Inr (Arr [Obj [(''id'', Str ''a1'')]]) \<and>
   extract_records (Arr [Obj [(''id'', Str ''a1'')]]) = Inr (Arr [Obj [(''id'', Str ''a1'')]]) \<and>
   extract_records (Obj [(''id'', Str ''a1'')]) = Inr (Arr [Obj [(''id'', Str ''a1'')]]) \<and>
   extract_records (Str ''plain text'') = Inr (Arr [Str ''plain text''])"
  using extract_records_total [of "[(''results'', Arr [Obj [(''id'', Str ''a1'')]])]"
      "[Obj [(''id'', Str ''a1'')]]" "[Obj [(''id'', Str ''a1'')]]" "[Obj [(''id'', Str ''a1'')]]"
      "Str ''plain text''"]
    extract_records_total [of "[(''data'', Arr [Obj [(''id'', Str ''a1'')]])]"
      "[Obj [(''id'', Str ''a1'')]]" "[Obj [(''id'', Str ''a1'')]]" "[Obj [(''id'', Str ''a1'')]]"
      "Str ''plain text''"]
    extract_records_total [of "[(''id'', Str ''a1'')]"
      "[Obj [(''id'', Str ''a1'')]]" "[Obj [(''id'', Str ''a1'')]]" "[Obj [(''id'', Str ''a1'')]]"
      "Str ''plain text''"]
  by (simp add: nullish_def get_prop_opt_def is_array_def index_of_key_envelope)

text \<open>
  C4 (the claim holds of the renderer; a formatter of the code breaks it). For \<open>N \<ge> 1\<close>
  records the table is the header line, the separator rule, \<open>N\<close> rows and the count
  line. \<open>fields list\<close> on the body \<open>{"results":[{"id":"f1","acres":null}]}\<close> prints none
  of them: the formatter of the \<open>acres\<close> column tests \<open>v !== undefined\<close> only, so
  \<open>null\<close> reaches \<open>v.toFixed(2)\<close>, which raises during the width pass, before
  anything is printed; the command prints the runtime's message and exits with status 1.
  The formatters beside it do handle \<open>null\<close>: on \<open>{"id":"f1","name":null}\<close> the table
  is printed, with \<open>N/A\<close> in the three columns.
\<close>

theorem fields_list_null_acres:
  "run plain (default_config\<lparr>apiKey := ''k''\<rparr>)
      (\<lambda>c r. Resolved (Obj [(''results'', Arr [Obj [(''id'', Str ''f1''), (''acres'', Null)]])]))
      (FieldsList \<lparr>limit_arg = None, json_flag = False\<rparr>)
     = [SpinnerStart ''Fetching fields...'',
        Http (getClient (default_config\<lparr>apiKey := ''k''\<rparr>)) (GET ''/v4/fields'' [(''limit'', Num 50)]),
        SpinnerStop,
        ConsoleError [Str (BALLOT_X @ '' Cannot read properties of null (reading 'toFixed')'')],
        Exit 1] \<and>
   run plain (default_config\<lparr>apiKey := ''k''\<rparr>)
      (\<lambda>c r. Resolved (Obj [(''results'', Arr [Obj [(''id'', Str ''f1''), (''name'', Null)]])]))
      (FieldsList \<lparr>limit_arg = None, json_flag = False\<rparr>)
     = [SpinnerStart ''Fetching fields...'',
        Http (getClient (default_config\<lparr>apiKey := ''k''\<rparr>)) (GET ''/v4/fields'' [(''limit'', Num 50)]),
        SpinnerStop,
        ConsoleLog [Str ''ID  Name  Acres  Farm''],
        ConsoleLog [Str (repeat BOX_HORIZONTAL (length ''ID  Name  Acres  Farm''))],
        ConsoleLog [Str ''f1  N/A   N/A    N/A ''],
        ConsoleLog [Str (CHR 0x0A # ''1 result(s)'')]]"
proof -
  let ?cfg = "default_config\<lparr>apiKey := ''k''\<rparr>"
  have c: "dec_nat (Suc 0) = ''1''" by (simp add: dec_nat_eval)
  have x: "extract_records (Obj [(''results'', Arr rows)]) = Inr (Arr rows)" for rows
    by (simp add: extract_records_def)
  have a: "printTable plain (Arr [Obj [(''id'', Str ''f1''), (''acres'', Null)]]) fields_columns
     = ([], Some (Error ''Cannot read properties of null (reading 'toFixed')''))"
    by (simp add: printTable_def get_prop_opt_def fields_columns_def cell_text_def format_id_def
        format_text_def format_fixed_def js_or_def substring0_def TypeError_read_def)
  have b: "printTable plain (Arr [Obj [(''id'', Str ''f1''), (''name'', Null)]]) fields_columns
     = ([ConsoleLog [Str ''ID  Name  Acres  Farm''],
         ConsoleLog [Str (repeat BOX_HORIZONTAL (length ''ID  Name  Acres  Farm''))],
         ConsoleLog [Str ''f1  N/A   N/A    N/A ''],
         ConsoleLog [Str (CHR 0x0A # ''1 result(s)'')]], None)"
    by (simp add: printTable_def get_prop_opt_def fields_columns_def cell_text_def format_id_def
        format_text_def format_fixed_def js_or_def header_line_def pad_to_def cut_to_def padEnd_def
        substring0_def plain_def dec_int_def c eval_nat_numeral)
  have frame: "run plain ?cfg (\<lambda>c r. Resolved (Obj [(''results'', Arr rows)]))
      (FieldsList \<lparr>limit_arg = None, json_flag = False\<rparr>)
     = [SpinnerStart ''Fetching fields...'',
        Http (getClient ?cfg) (GET ''/v4/fields'' [(''limit'', Num 50)]),
        SpinnerStop]
       @ finish plain (printTable plain (Arr rows) fields_columns)" for rows
    by (cases "printTable plain (Arr rows) fields_columns"; cases "snd (printTable plain (Arr rows) fields_columns)")
       (simp_all add: fields_list_def list_action_def requireAuth_def isConfigured_def withSpinner_def
         listFields_def send_def Let_def option_limit_def parseInt_fifty limit_or_default_def x
         finish_def)
  have e: "fail plain (Error ''Cannot read properties of null (reading 'toFixed')'')
     = [ConsoleError [Str (BALLOT_X @ '' Cannot read properties of null (reading 'toFixed')'')], Exit 1]"
    by (simp add: fail_def printError_def plain_def Error_def)
  show ?thesis
    unfolding frame a b by (simp add: finish_def e)
qed

theorem fields_list_null_acres_witness:
  "exit_status (run plain (default_config\<lparr>apiKey := ''k''\<rparr>)
      (\<lambda>c r. Resolved (Obj [(''results'', Arr [Obj [(''id'', Str ''f1''), (''acres'', Null)]])]))
      (FieldsList \<lparr>limit_arg = None, json_flag = False\<rparr>)) = Some 1 \<and>
   exit_status (run plain (default_config\<lparr>apiKey := ''k''\<rparr>)
      (\<lambda>c r. Resolved (Obj [(''results'', Arr [Obj [(''id'', Str ''f1''), (''name'', Null)]])]))
      (FieldsList \<lparr>limit_arg = None, json_flag = False\<rparr>)) = None"
  using fields_list_null_acres by (simp del: run.simps)

text \<open>
  C5. In every table the renderer prints, every column has the width \<open>min(40, max(label
  length, all formatted-value lengths))\<close>: the header pads each label to it and every data
  cell is the cell text cut to that width and padded to it, so a data cell is exactly that
  wide and a longer value is truncated to exactly that width. \<open>printTable\<close> is private
  to \<open>src/index.js\<close> and is called with the column specs of the five list actions, whose
  keys are pairwise distinct; the widths are kept under the keys, and the statement is for
  column specs with distinct keys.
\<close>

theorem column_width:
  "(distinct (map key columns) \<and> renders columns rows \<and> rows \<noteq> [] \<longrightarrow>
      printTable env (Arr rows) columns =
        ([ConsoleLog [Str (chalk env Bold (chalk env Cyan
            (join ''  '' (map (\<lambda>col. padEnd (label col) (documented_width col rows)) columns))))],
          ConsoleLog [Str (chalk env Dim (repeat BOX_HORIZONTAL (length
            (join ''  '' (map (\<lambda>col. padEnd (label col) (documented_width col rows)) columns)))))]]
         @ map (\<lambda>row. ConsoleLog [Str (join ''  ''
              (map (\<lambda>col. padEnd (substring0 (text_of col row) (documented_width col rows))
                                  (documented_width col rows)) columns))]) rows
         @ [ConsoleLog [Str (chalk env Dim ([CHR 0x0A] @ dec_nat (length rows) @ '' result(s)''))]],
         None)) \<and>
   documented_width col rows
     = min 40 (Max (set (length (label col) # map (\<lambda>row. length (text_of col row)) rows))) \<and>
   length (padEnd (substring0 t w) w) = w \<and>
   (length t > w \<longrightarrow> padEnd (substring0 t w) w = take w t) \<and>
   distinct (map key fields_columns) \<and> distinct (map key farms_columns) \<and>
   distinct (map key boundaries_columns) \<and> distinct (map key (activity_columns env))"
proof -
  have "printTable env (Arr rows) columns =
        ([ConsoleLog [Str (chalk env Bold (chalk env Cyan
            (join ''  '' (map (\<lambda>col. padEnd (label col) (documented_width col rows)) columns))))],
          ConsoleLog [Str (chalk env Dim (repeat BOX_HORIZONTAL (length
            (join ''  '' (map (\<lambda>col. padEnd (label col) (documented_width col rows)) columns)))))]]
         @ map (\<lambda>row. ConsoleLog [Str (join ''  ''
              (map (\<lambda>col. padEnd (substring0 (text_of col row) (documented_width col rows))
                                  (documented_width col rows)) columns))]) rows
         @ [ConsoleLog [Str (chalk env Dim ([CHR 0x0A] @ dec_nat (length rows) @ '' result(s)''))]],
         None)"
    if d: "distinct (map key columns)" and r: "renders columns rows" and n: "rows \<noteq> []"
    unfolding printTable_renders [OF n r] header_line_distinct [OF d] row_line_distinct [OF d]
    by (rule refl)
  moreover have "distinct (map key fields_columns)" "distinct (map key farms_columns)"
    "distinct (map key boundaries_columns)" "distinct (map key (activity_columns env))"
    by (simp_all add: fields_columns_def farms_columns_def boundaries_columns_def
        activity_columns_def)
  ultimately show ?thesis
    by (simp add: padEnd_substring0 documented_width_def)
qed

theorem column_width_witness:
  "renders farms_columns [Obj [(''id'', Str ''a1''), (''name'', Str ''Farm A'')],
                          Obj [(''id'', Str ''b2''), (''fieldCount'', Num 12)]] \<and>
   printTable plain (Arr [Obj [(''id'', Str ''a1''), (''name'', Str ''Farm A'')],
                          Obj [(''id'', Str ''b2''), (''fieldCount'', Num 12)]]) farms_columns
     = ([ConsoleLog [Str ''ID  Name    Fields''],
         ConsoleLog [Str (repeat BOX_HORIZONTAL (length ''ID  Name    Fields''))],
         ConsoleLog [Str ''a1  Farm A  N/A   ''],
         ConsoleLog [Str ''b2  N/A     12    ''],
         ConsoleLog [Str (CHR 0x0A # ''2 result(s)'')]], None) \<and>
   padEnd (substring0 ''North Field'' 5) 5 = ''North''"
proof -
  let ?rows = "[Obj [(''id'', Str ''a1''), (''name'', Str ''Farm A'')],
                Obj [(''id'', Str ''b2''), (''fieldCount'', Num 12)]]"
  note inst = column_width [of farms_columns ?rows plain "\<lparr>key = ''id'', label = ''ID'', format = None\<rparr>"
        "''North Field''" 5]
  have d: "distinct (map key farms_columns)"
    using inst by blast
  have r: "renders farms_columns ?rows"
    by (simp add: renders_def farms_columns_def cell_text_def format_id_def format_text_def
        format_count_def)
  have t: "text_of \<lparr>key = ''id'', label = ''ID'', format = Some format_id\<rparr>
             (Obj [(''id'', Str ''a1''), (''name'', Str ''Farm A'')]) = ''a1''"
    "text_of \<lparr>key = ''id'', label = ''ID'', format = Some format_id\<rparr>
             (Obj [(''id'', Str ''b2''), (''fieldCount'', Num 12)]) = ''b2''"
    "text_of \<lparr>key = ''name'', label = ''Name'', format = Some format_text\<rparr>
             (Obj [(''id'', Str ''a1''), (''name'', Str ''Farm A'')]) = ''Farm A''"
    "text_of \<lparr>key = ''name'', label = ''Name'', format = Some format_text\<rparr>
             (Obj [(''id'', Str ''b2''), (''fieldCount'', Num 12)]) = ''N/A''"
    "text_of \<lparr>key = ''fieldCount'', label = ''Fields'', format = Some format_count\<rparr>
             (Obj [(''id'', Str ''a1''), (''name'', Str ''Farm A'')]) = ''N/A''"
    "text_of \<lparr>key = ''fieldCount'', label = ''Fields'', format = Some format_count\<rparr>
             (Obj [(''id'', Str ''b2''), (''fieldCount'', Num 12)]) = ''12''"
    by (simp_all add: text_of_def cell_text_def format_id_def format_text_def format_count_def
        js_or_def substring0_def dec_int_def dec_nat_eval digit_char_eval)
  have w: "documented_width \<lparr>key = ''id'', label = ''ID'', format = Some format_id\<rparr> ?rows = 2"
    "documented_width \<lparr>key = ''name'', label = ''Name'', format = Some format_text\<rparr> ?rows = 6"
    "documented_width \<lparr>key = ''fieldCount'', label = ''Fields'', format = Some format_count\<rparr> ?rows = 6"
    by (simp_all add: documented_width_def t)
  have c2: "dec_nat 2 = ''2''"
    by (simp add: dec_nat_eval digit_char_eval)
  have c: "dec_nat (Suc (Suc 0)) = ''2''"
    using c2 by (simp only: numeral_2_eq_2)
  have cut: "padEnd (substring0 ''North Field'' 5) 5 = ''North''"
    using column_width [of farms_columns ?rows plain "\<lparr>key = ''id'', label = ''ID'', format = None\<rparr>"
        "''North Field''" 5]
    by (simp add: eval_nat_numeral)
  have "printTable plain (Arr ?rows) farms_columns
     = ([ConsoleLog [Str ''ID  Name    Fields''],
         ConsoleLog [Str (repeat BOX_HORIZONTAL (length ''ID  Name    Fields''))],
         ConsoleLog [Str ''a1  Farm A  N/A   ''],
         ConsoleLog [Str ''b2  N/A     12    ''],
         ConsoleLog [Str (CHR 0x0A # ''2 result(s)'')]], None)"
    using d r column_width [of farms_columns ?rows plain "\<lparr>key = ''id'', label = ''ID'', format = None\<rparr>"
        "''North Field''" 5]
    by (simp add: farms_columns_def w t c plain_def padEnd_def substring0_def eval_nat_numeral)
  with r cut show ?thesis by simp
qed

text \<open>
  C6 (as stated, refuted). A column without a formatter on a record that lacks the key:
  the cell text is the empty string and the cell is rendered as blanks, not as \<open>N/A\<close>.
\<close>

theorem cell_placeholder_counterexample:
  "cell_text \<lparr>key = ''name'', label = ''Name'', format = None\<rparr> (Obj [(''id'', Str ''a1'')]) = Inr [] \<and>
   cell_text \<lparr>key = ''name'', label = ''Name'', format = None\<rparr> (Obj [(''id'', Str ''a1'')]) \<noteq> Inr ''N/A'' \<and>
   printTable plain (Arr [Obj [(''id'', Str ''a1'')]])
      [\<lparr>key = ''id'', label = ''ID'', format = None\<rparr>,
       \<lparr>key = ''name'', label = ''Name'', format = None\<rparr>]
     = ([ConsoleLog [Str ''ID  Name''],
         ConsoleLog [Str (repeat BOX_HORIZONTAL (length ''ID  Name''))],
         ConsoleLog [Str ''a1      ''],
         ConsoleLog [Str (CHR 0x0A # ''1 result(s)'')]], None)"
proof -
  have c: "dec_nat (Suc 0) = ''1''" by (simp add: dec_nat_eval)
  have a: "cell_text \<lparr>key = ''name'', label = ''Name'', format = None\<rparr> (Obj [(''id'', Str ''a1'')]) = Inr []"
    by (simp add: cell_text_def js_coalesce_def nullish_def)
  have "printTable plain (Arr [Obj [(''id'', Str ''a1'')]])
      [\<lparr>key = ''id'', label = ''ID'', format = None\<rparr>,
       \<lparr>key = ''name'', label = ''Name'', format = None\<rparr>]
     = ([ConsoleLog [Str ''ID  Name''],
         ConsoleLog [Str (repeat BOX_HORIZONTAL (length ''ID  Name''))],
         ConsoleLog [Str ''a1      ''],
         ConsoleLog [Str (CHR 0x0A # ''1 result(s)'')]], None)"
    by (simp add: printTable_def get_prop_opt_def cell_text_def js_coalesce_def nullish_def
        header_line_def pad_to_def cut_to_def padEnd_def substring0_def plain_def dec_int_def c
        eval_nat_numeral)
  with a show ?thesis by simp
qed

text \<open>
  C6 (amended). The text of a cell is \<open>String\<close> of what the column's formatter returns
  for the value (and the row) when the column declares one; without a formatter it is
  \<open>String\<close> of the raw value, and for a value that is missing, \<open>undefined\<close> or
  \<open>null\<close> it is the empty string, so that the cell is rendered as blanks up to the
  column width. The text \<open>N/A\<close> comes from the formatters the commands declare, not
  from the renderer.
\<close>

theorem cell_format:
  "(get_prop row (key col) = Inr v \<and> format col = Some f \<longrightarrow>
      cell_text col row = (case f v row of Inl e \<Rightarrow> Inl e | Inr r \<Rightarrow> Inr (ToString r))) \<and>
   (get_prop row (key col) = Inr v \<and> format col = None \<and> \<not> nullish v \<longrightarrow>
      cell_text col row = Inr (ToString v)) \<and>
   (get_prop row (key col) = Inr v \<and> format col = None \<and> nullish v \<longrightarrow>
      cell_text col row = Inr [] \<and>
      pad_to widths (key col) (cut_to widths (key col) (text_of col row))
        = replicate (case widths (key col) of None \<Rightarrow> 0 | Some w \<Rightarrow> w) (CHR '' ''))"
  using cell_text_cases [of row col v]
  by (auto simp: text_of_def pad_to_def cut_to_def padEnd_def substring0_def split: option.splits)

theorem cell_format_witness:
  "cell_text \<lparr>key = ''name'', label = ''Name'', format = Some format_text\<rparr> (Obj [(''id'', Str ''a1'')])
     = Inr ''N/A'' \<and>
   cell_text \<lparr>key = ''id'', label = ''ID'', format = None\<rparr> (Obj [(''id'', Str ''a1'')]) = Inr ''a1'' \<and>
   cell_text \<lparr>key = ''name'', label = ''Name'', format = None\<rparr> (Obj [(''id'', Str ''a1'')]) = Inr [] \<and>
   pad_to [''name'' \<mapsto> 4] ''name'' (cut_to [''name'' \<mapsto> 4] ''name''
      (text_of \<lparr>key = ''name'', label = ''Name'', format = None\<rparr> (Obj [(''id'', Str ''a1'')]))) = ''    ''"
  using cell_format [of "Obj [(''id'', Str ''a1'')]" "\<lparr>key = ''name'', label = ''Name'', format = Some format_text\<rparr>"
      Undefined format_text "[''name'' \<mapsto> 4]"]
    cell_format [of "Obj [(''id'', Str ''a1'')]" "\<lparr>key = ''id'', label = ''ID'', format = None\<rparr>"
      "Str ''a1''" format_text "[''name'' \<mapsto> 4]"]
    cell_format [of "Obj [(''id'', Str ''a1'')]" "\<lparr>key = ''name'', label = ''Name'', format = None\<rparr>"
      Undefined format_text "[''name'' \<mapsto> 4]"]
  by (simp add: nullish_def format_text_def js_or_def eval_nat_numeral)

text \<open>
  C7. Every authenticated command checks the configuration first: when the API key is
  empty, the run prints the fixed message and ends with exit status 1, and it sends no
  request. A run that sends a request is one of a configured client.
\<close>

theorem run_requires_configuration:
  "(isConfigured cfg \<longleftrightarrow> apiKey cfg \<noteq> []) \<and>
   (\<not> isConfigured cfg \<longrightarrow>
      run env cfg net cmd =
        [printError env ''Climate FieldView credentials not configured.'',
         ConsoleLog [Str ([CHR 0x0A] @ ''Run the following to configure:'')],
         ConsoleLog [Str (chalk env Cyan ''  climatecom config set --api-key <key>'')],
         Exit 1]
      \<and> requests_of (run env cfg net cmd) = []
      \<and> exit_status (run env cfg net cmd) = Some 1) \<and>
   (requests_of (run env cfg net cmd) \<noteq> [] \<longrightarrow> isConfigured cfg)"
proof -
  have a: "isConfigured cfg \<longleftrightarrow> apiKey cfg \<noteq> []"
    by (simp add: isConfigured_def)
  have b: "exit_status (run env cfg net cmd) = Some 1" if "\<not> isConfigured cfg"
    by (simp add: run_unconfigured [OF that] printError_def)
  show ?thesis
    using a b run_unconfigured [of cfg env net cmd] requests_of_run [of env cfg net cmd]
    by auto
qed

theorem run_requires_configuration_witness:
  "\<not> isConfigured default_config \<and>
   run plain default_config (\<lambda>c r. Resolved Null) (HarvestGet ''h1'' False) =
     [ConsoleError [Str (BALLOT_X @ '' Climate FieldView credentials not configured.'')],
      ConsoleLog [Str ([CHR 0x0A] @ ''Run the following to configure:'')],
      ConsoleLog [Str ''  climatecom config set --api-key <key>''],
      Exit 1] \<and>
   requests_of (run plain default_config (\<lambda>c r. Resolved Null) (HarvestGet ''h1'' False)) = [] \<and>
   exit_status (run plain default_config (\<lambda>c r. Resolved Null) (HarvestGet ''h1'' False)) = Some 1 \<and>
   requests_of (run plain (default_config\<lparr>apiKey := ''k''\<rparr>) (\<lambda>c r. Resolved Null)
      (HarvestGet ''h1'' False)) \<noteq> [] \<and>
   isConfigured (default_config\<lparr>apiKey := ''k''\<rparr>)"
proof -
  have h: "\<not> isConfigured default_config"
    by (simp add: isConfigured_def default_config_def)
  have k: "isConfigured (default_config\<lparr>apiKey := ''k''\<rparr>)"
    by (simp add: isConfigured_def)
  have sent: "requests_of (run plain (default_config\<lparr>apiKey := ''k''\<rparr>) (\<lambda>c r. Resolved Null)
      (HarvestGet ''h1'' False)) \<noteq> []"
    using k by (simp add: requests_of_run del: run.simps)
  have "run plain default_config (\<lambda>c r. Resolved Null) (HarvestGet ''h1'' False) =
     [ConsoleError [Str (BALLOT_X @ '' Climate FieldView credentials not configured.'')],
      ConsoleLog [Str ([CHR 0x0A] @ ''Run the following to configure:'')],
      ConsoleLog [Str ''  climatecom config set --api-key <key>''],
      Exit 1] \<and>
   requests_of (run plain default_config (\<lambda>c r. Resolved Null) (HarvestGet ''h1'' False)) = [] \<and>
   exit_status (run plain default_config (\<lambda>c r. Resolved Null) (HarvestGet ''h1'' False)) = Some 1"
    using h run_requires_configuration [of default_config plain "\<lambda>c r. Resolved Null" "HarvestGet ''h1'' False"]
    by (simp add: printError_def plain_def)
  moreover have "isConfigured (default_config\<lparr>apiKey := ''k''\<rparr>)"
    using sent run_requires_configuration [of "default_config\<lparr>apiKey := ''k''\<rparr>" plain
        "\<lambda>c r. Resolved Null" "HarvestGet ''h1'' False"]
    by blast
  ultimately show ?thesis using h sent by simp
qed

text \<open>
  C8. \<open>hasValidToken\<close> holds exactly when the access token is not empty and the stored
  expiry is more than 60 seconds (60000 ms) after the current time.
\<close>

theorem hasValidToken_iff:
  "hasValidToken cfg now \<longleftrightarrow> accessToken cfg \<noteq> [] \<and> tokenExpiry cfg - now > 60000"
  by (auto simp: hasValidToken_def)

theorem hasValidToken_iff_witness:
  "hasValidToken (default_config\<lparr>accessToken := ''t'', tokenExpiry := 1700000060001\<rparr>) 1700000000000 \<and>
   \<not> hasValidToken (default_config\<lparr>accessToken := ''t'', tokenExpiry := 1700000060000\<rparr>) 1700000000000 \<and>
   \<not> hasValidToken (default_config\<lparr>tokenExpiry := 1700000060001\<rparr>) 1700000000000"
  using hasValidToken_iff [of "default_config\<lparr>accessToken := ''t'', tokenExpiry := 1700000060001\<rparr>" 1700000000000]
    hasValidToken_iff [of "default_config\<lparr>accessToken := ''t'', tokenExpiry := 1700000060000\<rparr>" 1700000000000]
    hasValidToken_iff [of "default_config\<lparr>tokenExpiry := 1700000060001\<rparr>" 1700000000000]
  by (simp add: default_config_def)

text \<open>
  C9. Each of the five list operations sends exactly one request, and that request carries
  \<open>limit = L\<close> for the limit \<open>L\<close> it is given and \<open>limit = 50\<close> when the limit is
  left out. On the command line every list command of a configured client sends exactly
  one request, with the limit that \<open>parseInt\<close> reads from \<open>--limit\<close>: for the decimal
  numeral of an integer \<open>L\<close> that is a JavaScript number (one a double holds exactly, as
  every integer below \<open>2^53\<close> in magnitude is) that is \<open>limit = L\<close>, and with no
  \<open>--limit\<close> it is \<open>limit = 50\<close>.
\<close>

theorem list_limit:
  "fst (listFields cfg net (Num L)) = [Http (getClient cfg) (GET ''/v4/fields'' [(''limit'', Num L)])] \<and>
   fst (listFields cfg net Undefined) = [Http (getClient cfg) (GET ''/v4/fields'' [(''limit'', Num 50)])] \<and>
   fst (listFarms cfg net (Num L)) = [Http (getClient cfg) (GET ''/v4/farms'' [(''limit'', Num L)])] \<and>
   fst (listFarms cfg net Undefined) = [Http (getClient cfg) (GET ''/v4/farms'' [(''limit'', Num 50)])] \<and>
   fst (listBoundaries cfg net (Num L))
     = [Http (getClient cfg) (GET ''/v4/boundaries'' [(''limit'', Num L)])] \<and>
   fst (listBoundaries cfg net Undefined)
     = [Http (getClient cfg) (GET ''/v4/boundaries'' [(''limit'', Num 50)])] \<and>
   fst (listHarvestActivities cfg net (Num L))
     = [Http (getClient cfg) (GET ''/v4/activitySummaries/harvest'' [(''limit'', Num L)])] \<and>
   fst (listHarvestActivities cfg net Undefined)
     = [Http (getClient cfg) (GET ''/v4/activitySummaries/harvest'' [(''limit'', Num 50)])] \<and>
   fst (listPlantingActivities cfg net (Num L))
     = [Http (getClient cfg) (GET ''/v4/activitySummaries/planting'' [(''limit'', Num L)])] \<and>
   fst (listPlantingActivities cfg net Undefined)
     = [Http (getClient cfg) (GET ''/v4/activitySummaries/planting'' [(''limit'', Num 50)])] \<and>
   (isConfigured cfg \<longrightarrow>
      requests_of (run env cfg net (FieldsList options))
        = [(getClient cfg, GET ''/v4/fields'' [(''limit'', parseInt (option_limit options))])] \<and>
      requests_of (run env cfg net (FarmsList options))
        = [(getClient cfg, GET ''/v4/farms'' [(''limit'', parseInt (option_limit options))])] \<and>
      requests_of (run env cfg net (BoundariesList options))
        = [(getClient cfg, GET ''/v4/boundaries'' [(''limit'', parseInt (option_limit options))])] \<and>
      requests_of (run env cfg net (HarvestList options))
        = [(getClient cfg,
            GET ''/v4/activitySummaries/harvest'' [(''limit'', parseInt (option_limit options))])] \<and>
      requests_of (run env cfg net (PlantingList options))
        = [(getClient cfg,
            GET ''/v4/activitySummaries/planting'' [(''limit'', parseInt (option_limit options))])]) \<and>
   (is_double L \<and> (limit_arg options = Some (dec_int L) \<or> limit_arg options = None \<and> L = 50)
      \<longrightarrow> parseInt (option_limit options) = Num L) \<and>
   (\<bar>L\<bar> < 2 ^ 53 \<longrightarrow> is_double L)"
proof -
  have api:
    "fst (send cfg net (GET path [(''limit'', limit_or_default (Num L))]))
       = [Http (getClient cfg) (GET path [(''limit'', Num L)])]"
    "fst (send cfg net (GET path [(''limit'', limit_or_default Undefined)]))
       = [Http (getClient cfg) (GET path [(''limit'', Num 50)])]" for path
    by (simp_all add: fst_send limit_or_default_def)
  have cli: "parseInt (option_limit options) = Num L"
    if "is_double L" "limit_arg options = Some (dec_int L) \<or> limit_arg options = None \<and> L = 50"
    using that parseInt_fifty by (auto simp: option_limit_def parseInt_dec_int)
  show ?thesis
    using cli is_double_small [of L]
    by (simp add: api listFields_def listFarms_def listBoundaries_def listHarvestActivities_def
        listPlantingActivities_def requests_of_run del: run.simps)
qed

theorem list_limit_witness:
  "isConfigured (default_config\<lparr>apiKey := ''k''\<rparr>) \<and> is_double 100 \<and> is_double 50 \<and>
   requests_of (run plain (default_config\<lparr>apiKey := ''k''\<rparr>) (\<lambda>c r. Resolved (Arr []))
       (HarvestList \<lparr>limit_arg = Some ''100'', json_flag = False\<rparr>))
     = [(getClient (default_config\<lparr>apiKey := ''k''\<rparr>),
         GET ''/v4/activitySummaries/harvest'' [(''limit'', Num 100)])] \<and>
   requests_of (run plain (default_config\<lparr>apiKey := ''k''\<rparr>) (\<lambda>c r. Resolved (Arr []))
       (FieldsList \<lparr>limit_arg = None, json_flag = True\<rparr>))
     = [(getClient (default_config\<lparr>apiKey := ''k''\<rparr>), GET ''/v4/fields'' [(''limit'', Num 50)])]"
proof -
  have c: "isConfigured (default_config\<lparr>apiKey := ''k''\<rparr>)"
    by (simp add: isConfigured_def)
  have d: "dec_int 100 = ''100''"
    by (simp add: dec_int_def dec_nat_eval digit_char_eval)
  have s: "\<bar>100::int\<bar> < 2 ^ 53" "\<bar>50::int\<bar> < 2 ^ 53"
    by simp_all
  note a = list_limit [of "default_config\<lparr>apiKey := ''k''\<rparr>" "\<lambda>c r. Resolved (Arr [])" 100
        plain "\<lparr>limit_arg = Some ''100'', json_flag = False\<rparr>"]
  note b = list_limit [of "default_config\<lparr>apiKey := ''k''\<rparr>" "\<lambda>c r. Resolved (Arr [])" 50
        plain "\<lparr>limit_arg = None, json_flag = True\<rparr>"]
  have da: "is_double 100" using a s(1) by blast
  have db: "is_double 50" using b s(2) by blast
  have pa: "parseInt (option_limit \<lparr>limit_arg = Some ''100'', json_flag = False\<rparr>) = Num 100"
    using a da d by simp
  have pb: "parseInt (option_limit \<lparr>limit_arg = None, json_flag = True\<rparr>) = Num 50"
    using b db by simp
  show ?thesis
    using c da db a b by (simp add: pa pb del: run.simps)
qed

text \<open>
  C10. The base URL of every request is the constant \<open>https://platform.climate.com\<close>;
  the stored \<open>baseUrl\<close> setting is never read: changing it changes neither the client
  nor anything a run does.
\<close>

theorem base_url_fixed:
  "baseURL (getClient cfg) = ''https://platform.climate.com'' \<and>
   getClient (cfg\<lparr>baseUrl := url\<rparr>) = getClient cfg \<and>
   run env (cfg\<lparr>baseUrl := url\<rparr>) net cmd = run env cfg net cmd \<and>
   (\<forall>(c, r) \<in> set (requests_of (run env cfg net cmd)). baseURL c = ''https://platform.climate.com'')"
proof -
  have c: "getClient (cfg\<lparr>baseUrl := url\<rparr>) = getClient cfg"
    by (simp add: getClient_def)
  have s: "send (cfg\<lparr>baseUrl := url\<rparr>) = send cfg"
    by (intro ext) (simp add: send_def c)
  have a: "requireAuth env (cfg\<lparr>baseUrl := url\<rparr>) = requireAuth env cfg"
    by (simp add: requireAuth_def isConfigured_def)
  have ops: "listFields (cfg\<lparr>baseUrl := url\<rparr>) = listFields cfg"
    "listFarms (cfg\<lparr>baseUrl := url\<rparr>) = listFarms cfg"
    "listBoundaries (cfg\<lparr>baseUrl := url\<rparr>) = listBoundaries cfg"
    "listHarvestActivities (cfg\<lparr>baseUrl := url\<rparr>) = listHarvestActivities cfg"
    "listPlantingActivities (cfg\<lparr>baseUrl := url\<rparr>) = listPlantingActivities cfg"
    "getField (cfg\<lparr>baseUrl := url\<rparr>) = getField cfg"
    "getFarm (cfg\<lparr>baseUrl := url\<rparr>) = getFarm cfg"
    "getBoundary (cfg\<lparr>baseUrl := url\<rparr>) = getBoundary cfg"
    "getHarvestActivity (cfg\<lparr>baseUrl := url\<rparr>) = getHarvestActivity cfg"
    "getPlantingActivity (cfg\<lparr>baseUrl := url\<rparr>) = getPlantingActivity cfg"
    "createField (cfg\<lparr>baseUrl := url\<rparr>) = createField cfg"
    by (intro ext, simp add: listFields_def listFarms_def listBoundaries_def
        listHarvestActivities_def listPlantingActivities_def getField_def getFarm_def
        getBoundary_def getHarvestActivity_def getPlantingActivity_def createField_def s)+
  have r: "run env (cfg\<lparr>baseUrl := url\<rparr>) net cmd = run env cfg net cmd"
    by (cases cmd)
       (simp_all add: fields_list_def farms_list_def boundaries_list_def harvest_list_def
         planting_list_def fields_get_def farms_get_def boundaries_get_def harvest_get_def
         planting_get_def fields_create_def list_action_def get_action_def a ops
         cong: option.case_cong)
  have b: "baseURL (getClient cfg) = ''https://platform.climate.com''"
    by (simp add: getClient_def BASE_URL_def)
  show ?thesis
    using b c r by (simp add: requests_of_run)
qed

theorem base_url_fixed_witness:
  "requests_of (run plain (default_config\<lparr>apiKey := ''k'', baseUrl := ''https://evil.example''\<rparr>)
      (\<lambda>c r. Resolved (Arr [])) (FarmsGet ''a1'' True))
     = [(\<lparr>baseURL = ''https://platform.climate.com'',
          headers = [(''Authorization'', ''Bearer k''), (''Accept'', ''application/json''),
                     (''Content-Type'', ''application/json'')]\<rparr>,
         GET ''/v4/farms/a1'' [])]"
  using base_url_fixed [of "default_config\<lparr>apiKey := ''k''\<rparr>" "''https://evil.example''" plain
      "\<lambda>c r. Resolved (Arr [])" "FarmsGet ''a1'' True"]
  by (simp add: requests_of_run isConfigured_def default_config_def getClient_def BASE_URL_def
      del: run.simps)

end
